theory Spec2Isabelle
  imports Main "HOL-Library.Multiset"
begin

section \<open>Strings\<close>

text \<open>
  JavaScript strings are modelled as \<^typ>\<open>string\<close>: one \<^typ>\<open>char\<close> per code unit, for the
  code units below 256. In this range the white space of \<open>trim()\<close> and of the regular
  expression class \<open>\s\<close> is tab, line feed, vertical tab, form feed, carriage return,
  space and the no-break space U+00A0; the other Unicode spaces (U+1680, U+2000 to U+200A,
  U+2028, U+2029, U+202F, U+205F, U+3000, U+FEFF) lie above the range.

  \<open>toUpperCase()\<close> is modelled on the letters \<open>a\<close>..\<open>z\<close>. The source upper-cases a statement
  only to look for keywords made of spaces and of ASCII letters other than \<open>S\<close>; a code
  unit above 127 upper-cases to code units above 127 or to \<open>SS\<close>, so these tests come out
  as in JavaScript.
\<close>

definition isSpace :: "char \<Rightarrow> bool" where
  "isSpace c =
     (c \<in> set [CHR 0x09, CHR 0x0A, CHR 0x0B, CHR 0x0C, CHR 0x0D, CHR '' '', CHR 0xA0])"

definition isDigit :: "char \<Rightarrow> bool" where
  "isDigit c = (c \<in> set ''0123456789'')"

definition isWord :: "char \<Rightarrow> bool" where
  "isWord c = (c \<in> set ''abcdefghijklmnopqrstuvwxyzABCDEFGHIJKLMNOPQRSTUVWXYZ0123456789_'')"

definition toUpper :: "char \<Rightarrow> char" where
  "toUpper c =
     (case map_of (zip ''abcdefghijklmnopqrstuvwxyz'' ''ABCDEFGHIJKLMNOPQRSTUVWXYZ'') c of
        Some u \<Rightarrow> u
      | None \<Rightarrow> c)"

definition toUpperCase :: "string \<Rightarrow> string" where
  "toUpperCase s = map toUpper s"

definition trim :: "string \<Rightarrow> string" where
  "trim s = rev (dropWhile isSpace (rev (dropWhile isSpace s)))"

definition startsWith :: "string \<Rightarrow> string \<Rightarrow> bool" where
  "startsWith s p = (take (length p) s = p)"

definition endsWith :: "string \<Rightarrow> string \<Rightarrow> bool" where
  "endsWith s p = (length p \<le> length s \<and> drop (length s - length p) s = p)"

text \<open>\<open>s.includes(p)\<close>: \<open>p\<close> occurs in \<open>s\<close> at some position.\<close>

fun includesStr :: "string \<Rightarrow> string \<Rightarrow> bool" where
  "includesStr [] p = (p = [])"
| "includesStr (c # cs) p = (startsWith (c # cs) p \<or> includesStr cs p)"

text \<open>\<open>s.split(sep)\<close> for a one-character separator; the result is never empty.\<close>

fun split :: "char \<Rightarrow> string \<Rightarrow> string list" where
  "split sep [] = [[]]"
| "split sep (c # cs) =
     (if c = sep then [] # split sep cs
      else (case split sep cs of
              x # xs \<Rightarrow> (c # x) # xs
            | [] \<Rightarrow> [[c]]))"

text \<open>\<open>parts.join(sep)\<close>.\<close>

fun join :: "string \<Rightarrow> string list \<Rightarrow> string" where
  "join sep [] = []"
| "join sep [x] = x"
| "join sep (x # y # ys) = x @ sep @ join sep (y # ys)"

text \<open>\<open>x || d\<close> on an optional string: \<open>undefined\<close> and the empty string are falsy.\<close>

fun orElse :: "string option \<Rightarrow> string \<Rightarrow> string" where
  "orElse None d = d"
| "orElse (Some s) d = (if s = [] then d else s)"

text \<open>Decimal rendering of a number (\<open>String(n)\<close>, \<open>n.toString()\<close>, template literals).\<close>

definition digitChar :: "nat \<Rightarrow> char" where
  "digitChar d = ''0123456789'' ! (d mod 10)"

function showNat :: "nat \<Rightarrow> string" where
  "showNat n = (if n < 10 then [digitChar n] else showNat (n div 10) @ [digitChar (n mod 10)])"
  by pat_completeness auto
termination
  by (relation "measure id") auto

definition showInt :: "int \<Rightarrow> string" where
  "showInt i = (if i < 0 then CHR ''-'' # showNat (nat (- i)) else showNat (nat i))"

section \<open>Regular expressions\<close>

text \<open>
  The regular expressions of the source use literal text (compared without regard to
  case under the flag \<open>i\<close>), the classes \<open>\s\<close>, \<open>\w\<close>, \<open>\d\<close> and \<open>.\<close> under a greedy \<open>+\<close>,
  capturing groups around such a repetition, optional non-capturing groups
  \<open>(?: ... )?\<close> and the anchor \<open>$\<close>. They are matched as the JavaScript engine does it:
  by backtracking, a repetition trying its longest extent first and an optional group
  trying its body first.
\<close>

datatype cclass = Space | Word | Digit | AnyChar

fun inClass :: "cclass \<Rightarrow> char \<Rightarrow> bool" where
  "inClass Space c = isSpace c"
| "inClass Word c = isWord c"
| "inClass Digit c = isDigit c"
| "inClass AnyChar c = (c \<noteq> CHR 0x0A \<and> c \<noteq> CHR 0x0D)"

datatype rx =
    Lit string
  | Plus cclass
  | CapPlus nat cclass
  | Opt "rx list"
  | End

text \<open>
  The captured groups are a list of pairs of group number and text, the latest first;
  \<open>grp m g\<close> is \<open>m[g]\<close>, with \<open>None\<close> for \<open>undefined\<close>.
\<close>

type_synonym captures = "(nat \<times> string) list"

definition grp :: "captures \<Rightarrow> nat \<Rightarrow> string option" where
  "grp m g = map_of m g"

text \<open>\<open>backtrack n f\<close> tries the extents \<open>n\<close>, \<open>n - 1\<close>, ..., \<open>1\<close> in this order.\<close>

fun backtrack :: "nat \<Rightarrow> (nat \<Rightarrow> 'a option) \<Rightarrow> 'a option" where
  "backtrack 0 f = None"
| "backtrack (Suc i) f = (case f (Suc i) of Some r \<Rightarrow> Some r | None \<Rightarrow> backtrack i f)"

definition litMatches :: "bool \<Rightarrow> string \<Rightarrow> string \<Rightarrow> bool" where
  "litMatches ci l s =
     (if ci then map toUpper (take (length l) s) = map toUpper l
      else take (length l) s = l)"

text \<open>
  \<open>rmatch ci r s c\<close> matches the items \<open>r\<close> at the start of \<open>s\<close> and returns the captured
  groups; \<open>ci\<close> is the flag \<open>i\<close>.
\<close>

function rmatch :: "bool \<Rightarrow> rx list \<Rightarrow> string \<Rightarrow> captures \<Rightarrow> captures option" where
  "rmatch ci [] s c = Some c"
| "rmatch ci (Lit l # r) s c =
     (if litMatches ci l s then rmatch ci r (drop (length l) s) c else None)"
| "rmatch ci (Plus k # r) s c =
     backtrack (length (takeWhile (inClass k) s)) (\<lambda>i. rmatch ci r (drop i s) c)"
| "rmatch ci (CapPlus g k # r) s c =
     backtrack (length (takeWhile (inClass k) s))
       (\<lambda>i. rmatch ci r (drop i s) ((g, take i s) # c))"
| "rmatch ci (Opt body # r) s c =
     (case rmatch ci (body @ r) s c of
        Some c' \<Rightarrow> Some c'
      | None \<Rightarrow> rmatch ci r s c)"
| "rmatch ci (End # r) s c = (if s = [] then rmatch ci r s c else None)"
  by pat_completeness auto
termination
  by (relation "measure (\<lambda>(ci, r, s, c). size_list size r)") simp_all

text \<open>\<open>s.match(re)\<close> for an unanchored expression: the leftmost position where it matches.\<close>

fun rsearch :: "bool \<Rightarrow> rx list \<Rightarrow> string \<Rightarrow> captures option" where
  "rsearch ci r [] = rmatch ci r [] []"
| "rsearch ci r (x # xs) =
     (case rmatch ci r (x # xs) [] of
        Some c \<Rightarrow> Some c
      | None \<Rightarrow> rsearch ci r xs)"

section \<open>The schema model (types/schema.ts)\<close>

text \<open>
  Each interface is a record. The field names carry a prefix naming their interface,
  since several interfaces share the names \<open>schema\<close>, \<open>name\<close> and \<open>tableName\<close>. Optional
  fields are options; the optional fields that the functions modelled here neither read
  nor write (comments, generation expressions, foreign-key details, conditions) are left
  out. Numbers are integers.
\<close>

record Column =
  col_name :: string
  col_dataType :: string
  col_isNullable :: bool
  col_defaultValue :: "string option"
  col_isGenerated :: bool
  col_ordinalPosition :: int
  col_characterMaximumLength :: "int option"
  col_numericPrecision :: "int option"
  col_numericScale :: "int option"

datatype ConstraintType = PRIMARY_KEY | FOREIGN_KEY | UNIQUE | CHECK | NOT_NULL

record Constraint =
  con_name :: string
  con_type :: ConstraintType
  con_columns :: "string list"
  con_isDeferrable :: bool
  con_isDeferred :: bool

datatype Direction = ASC | DESC

record IndexColumn =
  ixc_name :: string
  ixc_direction :: Direction

record Index =
  idx_name :: string
  idx_tableName :: string
  idx_schemaName :: string
  idx_columns :: "IndexColumn list"
  idx_isUnique :: bool
  idx_isPrimary :: bool
  idx_method :: string
  idx_isConcurrent :: bool

record Table =
  tbl_schema :: string
  tbl_name :: string
  tbl_columns :: "Column list"
  tbl_constraints :: "Constraint list"
  tbl_indexes :: "Index list"

record Enum =
  enum_schema :: string
  enum_name :: string
  enum_values :: "string list"

datatype ParameterMode = IN | OUT | INOUT

record FunctionParameter =
  fnp_name :: string
  fnp_type :: string
  fnp_mode :: ParameterMode

record Function =
  fn_schema :: string
  fn_name :: string
  fn_returnType :: string
  fn_parameters :: "FunctionParameter list"
  fn_language :: string
  fn_definition :: string

record Extension =
  ext_name :: string
  ext_version :: string
  ext_schema :: string

record ViewColumn =
  vcol_name :: string
  vcol_dataType :: string
  vcol_isNullable :: bool
  vcol_ordinalPosition :: int

datatype DependencyType = DepTable | DepView | DepFunction

record ViewDependency =
  vdep_type :: DependencyType
  vdep_schema :: string
  vdep_name :: string

record View =
  view_schema :: string
  view_name :: string
  view_definition :: string
  view_columns :: "ViewColumn list"
  view_owner :: string
  view_dependencies :: "ViewDependency list"
  view_isUpdatable :: bool
  view_hasInsteadOfTriggers :: bool

datatype TriggerTiming = BEFORE | AFTER | INSTEAD_OF

datatype TriggerEvent = INSERT | UPDATE | DELETE | TRUNCATE

datatype TriggerOrientation = ROW | STATEMENT

record Trigger =
  trg_schema :: string
  trg_name :: string
  trg_tableName :: string
  trg_timing :: TriggerTiming
  trg_events :: "TriggerEvent list"
  trg_orientation :: TriggerOrientation
  trg_functionName :: string
  trg_functionSchema :: string
  trg_definition :: string
  trg_isConstraint :: bool
  trg_isEnabled :: bool

datatype RLSCommand = RLS_ALL | RLS_SELECT | RLS_INSERT | RLS_UPDATE | RLS_DELETE

record RLSPolicy =
  pol_schema :: string
  pol_tableName :: string
  pol_policyName :: string
  pol_permissive :: bool
  pol_roles :: "string list"
  pol_command :: RLSCommand

record DatabaseSchema =
  tables :: "Table list"
  views :: "View list"
  enums :: "Enum list"
  functions_ :: "Function list"
  extensions :: "Extension list"
  indexes :: "Index list"
  triggers :: "Trigger list"
  rlsPolicies :: "RLSPolicy list"

section \<open>Migrations (types/migration.ts)\<close>

text \<open>A \<open>Date\<close> is its time value \<open>getTime()\<close>, in milliseconds.\<close>

record Migration =
  mig_version :: string
  mig_name :: string
  mig_filename :: string
  mig_upSql :: string
  mig_downSql :: string
  mig_appliedAt :: "int option"

section \<open>Replay of migrations (services/schema-analyzer.ts)\<close>

datatype operation_type =
    CREATE_TABLE | DROP_TABLE | ADD_COLUMN | DROP_COLUMN | CREATE_INDEX | DROP_INDEX
  | CREATE_VIEW | DROP_VIEW | CREATE_TRIGGER | DROP_TRIGGER | CREATE_POLICY | DROP_POLICY

record operation =
  op_type :: operation_type
  op_sql :: string

text \<open>The body of the loop of \<open>parseMigrationOperations\<close>: the tag of one statement, if any.\<close>

definition classify :: "string \<Rightarrow> operation option" where
  "classify statement =
     (let upperStatement = toUpperCase statement in
      if startsWith upperStatement ''CREATE TABLE'' then
        Some \<lparr>op_type = CREATE_TABLE, op_sql = statement\<rparr>
      else if startsWith upperStatement ''DROP TABLE'' then
        Some \<lparr>op_type = DROP_TABLE, op_sql = statement\<rparr>
      else if startsWith upperStatement ''ALTER TABLE''
              \<and> includesStr upperStatement ''ADD COLUMN'' then
        Some \<lparr>op_type = ADD_COLUMN, op_sql = statement\<rparr>
      else if startsWith upperStatement ''ALTER TABLE''
              \<and> includesStr upperStatement ''DROP COLUMN'' then
        Some \<lparr>op_type = DROP_COLUMN, op_sql = statement\<rparr>
      else if startsWith upperStatement ''CREATE INDEX''
              \<or> startsWith upperStatement ''CREATE UNIQUE INDEX'' then
        Some \<lparr>op_type = CREATE_INDEX, op_sql = statement\<rparr>
      else if startsWith upperStatement ''DROP INDEX'' then
        Some \<lparr>op_type = DROP_INDEX, op_sql = statement\<rparr>
      else None)"

definition parseMigrationOperations :: "string \<Rightarrow> operation list" where
  "parseMigrationOperations sql =
     (let statements = filter (\<lambda>s. length s > 0) (map trim (split CHR '';'' sql))
      in List.map_filter classify statements)"

text \<open>The regular expressions of the \<open>apply\<close> functions, all under the flag \<open>i\<close>.\<close>

definition qualifiedName :: "nat \<Rightarrow> nat \<Rightarrow> rx list" where
  "qualifiedName g1 g2 = [Opt [CapPlus g1 Word, Lit ''.''], CapPlus g2 Word]"

definition createTableRe :: "rx list" where
  "createTableRe =
     [Lit ''CREATE TABLE'', Plus Space, Opt [Lit ''IF NOT EXISTS'', Plus Space]]
     @ qualifiedName 1 2"

definition dropTableRe :: "rx list" where
  "dropTableRe =
     [Lit ''DROP TABLE'', Plus Space, Opt [Lit ''IF EXISTS'', Plus Space]] @ qualifiedName 1 2"

definition addColumnRe :: "rx list" where
  "addColumnRe =
     [Lit ''ALTER TABLE'', Plus Space] @ qualifiedName 1 2
     @ [Plus Space, Lit ''ADD COLUMN'', Plus Space, CapPlus 3 Word]"

definition dropColumnRe :: "rx list" where
  "dropColumnRe =
     [Lit ''ALTER TABLE'', Plus Space] @ qualifiedName 1 2
     @ [Plus Space, Lit ''DROP COLUMN'', Plus Space, CapPlus 3 Word]"

definition createIndexRe :: "rx list" where
  "createIndexRe =
     [Lit ''CREATE'', Plus Space, Opt [Lit ''UNIQUE'', Plus Space], Lit ''INDEX'', Plus Space,
      Opt [Lit ''CONCURRENTLY'', Plus Space], CapPlus 1 Word, Plus Space, Lit ''ON'', Plus Space]
     @ qualifiedName 2 3"

definition dropIndexRe :: "rx list" where
  "dropIndexRe =
     [Lit ''DROP INDEX'', Plus Space, Opt [Lit ''CONCURRENTLY'', Plus Space],
      Opt [Lit ''IF EXISTS'', Plus Space], CapPlus 1 Word]"

definition createViewRe :: "rx list" where
  "createViewRe =
     [Lit ''CREATE'', Plus Space, Opt [Lit ''OR'', Plus Space, Lit ''REPLACE'', Plus Space],
      Lit ''VIEW'', Plus Space] @ qualifiedName 1 2 @ [Plus Space, Lit ''AS'']"

definition dropViewRe :: "rx list" where
  "dropViewRe =
     [Lit ''DROP VIEW'', Plus Space, Opt [Lit ''IF EXISTS'', Plus Space]] @ qualifiedName 1 2"

definition createTriggerRe :: "rx list" where
  "createTriggerRe = [Lit ''CREATE TRIGGER'', Plus Space, CapPlus 1 Word]"

definition dropTriggerRe :: "rx list" where
  "dropTriggerRe = [Lit ''DROP TRIGGER'', Plus Space, CapPlus 1 Word]"

definition createPolicyRe :: "rx list" where
  "createPolicyRe =
     [Lit ''CREATE POLICY'', Plus Space, CapPlus 1 Word, Plus Space, Lit ''ON'', Plus Space]
     @ qualifiedName 2 3"

definition dropPolicyRe :: "rx list" where
  "dropPolicyRe =
     [Lit ''DROP POLICY'', Plus Space, CapPlus 1 Word, Plus Space, Lit ''ON'', Plus Space]
     @ qualifiedName 2 3"

text \<open>
  \<open>xs.find(p)\<close> followed by a mutation of the object found: the first element that
  satisfies \<open>p\<close> is replaced by its updated value; nothing changes when there is none.
\<close>

fun updateFirst :: "('a \<Rightarrow> bool) \<Rightarrow> ('a \<Rightarrow> 'a) \<Rightarrow> 'a list \<Rightarrow> 'a list" where
  "updateFirst p f [] = []"
| "updateFirst p f (x # xs) = (if p x then f x # xs else x # updateFirst p f xs)"

text \<open>
  In the functions below a group that is not optional in the expression is set whenever
  the expression matches; its \<open>None\<close> branch is never taken.
\<close>

definition applyCreateTable :: "DatabaseSchema \<Rightarrow> string \<Rightarrow> DatabaseSchema" where
  "applyCreateTable schema sql =
     (case rsearch True createTableRe sql of
        None \<Rightarrow> schema
      | Some m \<Rightarrow>
          (case grp m 2 of
             None \<Rightarrow> schema
           | Some tableName \<Rightarrow>
               schema\<lparr>tables := tables schema @
                 [\<lparr>tbl_schema = orElse (grp m 1) ''public'', tbl_name = tableName,
                   tbl_columns = [], tbl_constraints = [], tbl_indexes = []\<rparr>]\<rparr>))"

definition applyDropTable :: "DatabaseSchema \<Rightarrow> string \<Rightarrow> DatabaseSchema" where
  "applyDropTable schema sql =
     (case rsearch True dropTableRe sql of
        None \<Rightarrow> schema
      | Some m \<Rightarrow>
          (case grp m 2 of
             None \<Rightarrow> schema
           | Some tableName \<Rightarrow>
               schema\<lparr>tables := filter
                 (\<lambda>t. \<not> (tbl_schema t = orElse (grp m 1) ''public'' \<and> tbl_name t = tableName))
                 (tables schema)\<rparr>))"

definition applyAddColumn :: "DatabaseSchema \<Rightarrow> string \<Rightarrow> DatabaseSchema" where
  "applyAddColumn schema sql =
     (case rsearch True addColumnRe sql of
        None \<Rightarrow> schema
      | Some m \<Rightarrow>
          (case (grp m 2, grp m 3) of
             (Some tableName, Some columnName) \<Rightarrow>
               schema\<lparr>tables := updateFirst
                 (\<lambda>t. tbl_schema t = orElse (grp m 1) ''public'' \<and> tbl_name t = tableName)
                 (\<lambda>t. t\<lparr>tbl_columns := tbl_columns t @
                    [\<lparr>col_name = columnName, col_dataType = ''text'', col_isNullable = True,
                      col_defaultValue = None, col_isGenerated = False,
                      col_ordinalPosition = int (length (tbl_columns t)) + 1,
                      col_characterMaximumLength = None, col_numericPrecision = None,
                      col_numericScale = None\<rparr>]\<rparr>)
                 (tables schema)\<rparr>
           | _ \<Rightarrow> schema))"

definition applyDropColumn :: "DatabaseSchema \<Rightarrow> string \<Rightarrow> DatabaseSchema" where
  "applyDropColumn schema sql =
     (case rsearch True dropColumnRe sql of
        None \<Rightarrow> schema
      | Some m \<Rightarrow>
          (case (grp m 2, grp m 3) of
             (Some tableName, Some columnName) \<Rightarrow>
               schema\<lparr>tables := updateFirst
                 (\<lambda>t. tbl_schema t = orElse (grp m 1) ''public'' \<and> tbl_name t = tableName)
                 (\<lambda>t. t\<lparr>tbl_columns := filter (\<lambda>c. col_name c \<noteq> columnName) (tbl_columns t)\<rparr>)
                 (tables schema)\<rparr>
           | _ \<Rightarrow> schema))"

definition applyCreateIndex :: "DatabaseSchema \<Rightarrow> string \<Rightarrow> DatabaseSchema" where
  "applyCreateIndex schema sql =
     (case rsearch True createIndexRe sql of
        None \<Rightarrow> schema
      | Some m \<Rightarrow>
          (case (grp m 1, grp m 3) of
             (Some indexName, Some tableName) \<Rightarrow>
               schema\<lparr>indexes := indexes schema @
                 [\<lparr>idx_name = indexName, idx_tableName = tableName,
                   idx_schemaName = orElse (grp m 2) ''public'', idx_columns = [],
                   idx_isUnique = includesStr (toUpperCase sql) ''UNIQUE'',
                   idx_isPrimary = False, idx_method = ''btree'',
                   idx_isConcurrent = includesStr (toUpperCase sql) ''CONCURRENTLY''\<rparr>]\<rparr>
           | _ \<Rightarrow> schema))"

definition applyDropIndex :: "DatabaseSchema \<Rightarrow> string \<Rightarrow> DatabaseSchema" where
  "applyDropIndex schema sql =
     (case rsearch True dropIndexRe sql of
        None \<Rightarrow> schema
      | Some m \<Rightarrow>
          (case grp m 1 of
             None \<Rightarrow> schema
           | Some indexName \<Rightarrow>
               schema\<lparr>indexes := filter (\<lambda>i. idx_name i \<noteq> indexName) (indexes schema)\<rparr>))"

definition applyCreateView :: "DatabaseSchema \<Rightarrow> string \<Rightarrow> DatabaseSchema" where
  "applyCreateView schema sql =
     (case rsearch True createViewRe sql of
        None \<Rightarrow> schema
      | Some m \<Rightarrow>
          (case grp m 2 of
             None \<Rightarrow> schema
           | Some viewName \<Rightarrow>
               schema\<lparr>views := filter
                   (\<lambda>v. \<not> (view_schema v = orElse (grp m 1) ''public'' \<and> view_name v = viewName))
                   (views schema) @
                 [\<lparr>view_schema = orElse (grp m 1) ''public'', view_name = viewName,
                   view_definition = sql, view_columns = [], view_owner = [],
                   view_dependencies = [], view_isUpdatable = False,
                   view_hasInsteadOfTriggers = False\<rparr>]\<rparr>))"

definition applyDropView :: "DatabaseSchema \<Rightarrow> string \<Rightarrow> DatabaseSchema" where
  "applyDropView schema sql =
     (case rsearch True dropViewRe sql of
        None \<Rightarrow> schema
      | Some m \<Rightarrow>
          (case grp m 2 of
             None \<Rightarrow> schema
           | Some viewName \<Rightarrow>
               schema\<lparr>views := filter
                 (\<lambda>v. \<not> (view_schema v = orElse (grp m 1) ''public'' \<and> view_name v = viewName))
                 (views schema)\<rparr>))"

definition applyCreateTrigger :: "DatabaseSchema \<Rightarrow> string \<Rightarrow> DatabaseSchema" where
  "applyCreateTrigger schema sql =
     (case rsearch True createTriggerRe sql of
        None \<Rightarrow> schema
      | Some m \<Rightarrow>
          (case grp m 1 of
             None \<Rightarrow> schema
           | Some triggerName \<Rightarrow>
               schema\<lparr>triggers := triggers schema @
                 [\<lparr>trg_schema = ''public'', trg_name = triggerName, trg_tableName = [],
                   trg_timing = BEFORE, trg_events = [], trg_orientation = ROW,
                   trg_functionName = [], trg_functionSchema = [], trg_definition = sql,
                   trg_isConstraint = False, trg_isEnabled = True\<rparr>]\<rparr>))"

definition applyDropTrigger :: "DatabaseSchema \<Rightarrow> string \<Rightarrow> DatabaseSchema" where
  "applyDropTrigger schema sql =
     (case rsearch True dropTriggerRe sql of
        None \<Rightarrow> schema
      | Some m \<Rightarrow>
          (case grp m 1 of
             None \<Rightarrow> schema
           | Some triggerName \<Rightarrow>
               schema\<lparr>triggers := filter (\<lambda>t. trg_name t \<noteq> triggerName) (triggers schema)\<rparr>))"

definition applyCreatePolicy :: "DatabaseSchema \<Rightarrow> string \<Rightarrow> DatabaseSchema" where
  "applyCreatePolicy schema sql =
     (case rsearch True createPolicyRe sql of
        None \<Rightarrow> schema
      | Some m \<Rightarrow>
          (case (grp m 1, grp m 3) of
             (Some policyName, Some tableName) \<Rightarrow>
               schema\<lparr>rlsPolicies := rlsPolicies schema @
                 [\<lparr>pol_schema = orElse (grp m 2) ''public'', pol_tableName = tableName,
                   pol_policyName = policyName, pol_permissive = True, pol_roles = [],
                   pol_command = RLS_ALL\<rparr>]\<rparr>
           | _ \<Rightarrow> schema))"

definition applyDropPolicy :: "DatabaseSchema \<Rightarrow> string \<Rightarrow> DatabaseSchema" where
  "applyDropPolicy schema sql =
     (case rsearch True dropPolicyRe sql of
        None \<Rightarrow> schema
      | Some m \<Rightarrow>
          (case (grp m 1, grp m 3) of
             (Some policyName, Some tableName) \<Rightarrow>
               schema\<lparr>rlsPolicies := filter
                 (\<lambda>p. \<not> (pol_schema p = orElse (grp m 2) ''public'' \<and> pol_tableName p = tableName
                          \<and> pol_policyName p = policyName))
                 (rlsPolicies schema)\<rparr>
           | _ \<Rightarrow> schema))"

text \<open>The \<open>switch\<close> of \<open>applyMigrationToSchema\<close>.\<close>

definition applyOperation :: "DatabaseSchema \<Rightarrow> operation \<Rightarrow> DatabaseSchema" where
  "applyOperation schema operation =
     (case op_type operation of
        CREATE_TABLE \<Rightarrow> applyCreateTable schema (op_sql operation)
      | DROP_TABLE \<Rightarrow> applyDropTable schema (op_sql operation)
      | ADD_COLUMN \<Rightarrow> applyAddColumn schema (op_sql operation)
      | DROP_COLUMN \<Rightarrow> applyDropColumn schema (op_sql operation)
      | CREATE_INDEX \<Rightarrow> applyCreateIndex schema (op_sql operation)
      | DROP_INDEX \<Rightarrow> applyDropIndex schema (op_sql operation)
      | CREATE_VIEW \<Rightarrow> applyCreateView schema (op_sql operation)
      | DROP_VIEW \<Rightarrow> applyDropView schema (op_sql operation)
      | CREATE_TRIGGER \<Rightarrow> applyCreateTrigger schema (op_sql operation)
      | DROP_TRIGGER \<Rightarrow> applyDropTrigger schema (op_sql operation)
      | CREATE_POLICY \<Rightarrow> applyCreatePolicy schema (op_sql operation)
      | DROP_POLICY \<Rightarrow> applyDropPolicy schema (op_sql operation))"

definition applyMigrationToSchema :: "DatabaseSchema \<Rightarrow> Migration \<Rightarrow> DatabaseSchema" where
  "applyMigrationToSchema schema migration =
     foldl applyOperation schema (parseMigrationOperations (mig_upSql migration))"

definition emptySchema :: DatabaseSchema where
  "emptySchema =
     \<lparr>tables = [], views = [], enums = [], functions_ = [], extensions = [], indexes = [],
      triggers = [], rlsPolicies = []\<rparr>"

definition buildExpectedSchemaFromMigrations :: "Migration list \<Rightarrow> DatabaseSchema" where
  "buildExpectedSchemaFromMigrations migrations =
     foldl applyMigrationToSchema emptySchema migrations"

section \<open>Drift reports (types/migration.ts)\<close>

record ColumnChange =
  chg_property :: string
  chg_expected :: string
  chg_actual :: string

record ColumnDrift =
  columnName :: string
  changes :: "ColumnChange list"

record TableDrift =
  tableName :: string
  missingColumns :: "string list"
  extraColumns :: "string list"
  modifiedColumns :: "ColumnDrift list"
  missingConstraints :: "string list"
  extraConstraints :: "string list"

record ViewDrift =
  viewName :: string
  definitionChanged :: bool
  oldDefinition :: "string option"
  newDefinition :: "string option"

record SchemaDrift =
  hasChanges :: bool
  missingTables :: "string list"
  extraTables :: "string list"
  modifiedTables :: "TableDrift list"
  missingIndexes :: "string list"
  extraIndexes :: "string list"
  missingViews :: "string list"
  extraViews :: "string list"
  modifiedViews :: "ViewDrift list"
  missingTriggers :: "string list"
  extraTriggers :: "string list"
  missingRLSPolicies :: "string list"
  extraRLSPolicies :: "string list"
  summary :: string

section \<open>The JavaScript \<open>Map\<close>\<close>

text \<open>
  A \<open>Map\<close> is the list of its entries in insertion order, with one entry per key:
  setting a key that is present replaces the value and keeps the entry's place.
  \<open>new Map(entries)\<close> sets the entries one after the other.
\<close>

fun Map_set :: "('k \<times> 'v) list \<Rightarrow> 'k \<Rightarrow> 'v \<Rightarrow> ('k \<times> 'v) list" where
  "Map_set [] k v = [(k, v)]"
| "Map_set ((k', v') # m) k v =
     (if k' = k then (k, v) # m else (k', v') # Map_set m k v)"

definition new_Map :: "('k \<times> 'v) list \<Rightarrow> ('k \<times> 'v) list" where
  "new_Map entries = foldl (\<lambda>m (k, v). Map_set m k v) [] entries"

definition Map_get :: "('k \<times> 'v) list \<Rightarrow> 'k \<Rightarrow> 'v option" where
  "Map_get m k = map_of m k"

definition Map_has :: "('k \<times> 'v) list \<Rightarrow> 'k \<Rightarrow> bool" where
  "Map_has m k = (Map_get m k \<noteq> None)"

definition Map_keys :: "('k \<times> 'v) list \<Rightarrow> 'k list" where
  "Map_keys m = map fst m"

section \<open>The diff (services/schema-analyzer.ts)\<close>

definition boolToString :: "bool \<Rightarrow> string" where
  "boolToString b = (if b then ''true'' else ''false'')"

text \<open>\<open>x?.toString() || "null"\<close> on an optional number.\<close>

definition numberOrNull :: "int option \<Rightarrow> string" where
  "numberOrNull x = orElse (map_option showInt x) ''null''"

definition compareColumn :: "Column \<Rightarrow> Column \<Rightarrow> ColumnDrift" where
  "compareColumn expected actual =
     \<lparr>columnName = col_name expected,
      changes =
        (if col_dataType expected \<noteq> col_dataType actual then
           [\<lparr>chg_property = ''dataType'', chg_expected = col_dataType expected,
             chg_actual = col_dataType actual\<rparr>]
         else []) @
        (if col_isNullable expected \<noteq> col_isNullable actual then
           [\<lparr>chg_property = ''isNullable'',
             chg_expected = boolToString (col_isNullable expected),
             chg_actual = boolToString (col_isNullable actual)\<rparr>]
         else []) @
        (if col_defaultValue expected \<noteq> col_defaultValue actual then
           [\<lparr>chg_property = ''defaultValue'',
             chg_expected = orElse (col_defaultValue expected) ''null'',
             chg_actual = orElse (col_defaultValue actual) ''null''\<rparr>]
         else []) @
        (if col_characterMaximumLength expected \<noteq> col_characterMaximumLength actual then
           [\<lparr>chg_property = ''characterMaximumLength'',
             chg_expected = numberOrNull (col_characterMaximumLength expected),
             chg_actual = numberOrNull (col_characterMaximumLength actual)\<rparr>]
         else []) @
        (if col_numericPrecision expected \<noteq> col_numericPrecision actual then
           [\<lparr>chg_property = ''numericPrecision'',
             chg_expected = numberOrNull (col_numericPrecision expected),
             chg_actual = numberOrNull (col_numericPrecision actual)\<rparr>]
         else []) @
        (if col_numericScale expected \<noteq> col_numericScale actual then
           [\<lparr>chg_property = ''numericScale'',
             chg_expected = numberOrNull (col_numericScale expected),
             chg_actual = numberOrNull (col_numericScale actual)\<rparr>]
         else [])\<rparr>"

text \<open>
  The two loops every family shares: the keys of \<open>expected\<close> that \<open>actual\<close> lacks, in the
  order of \<open>expected\<close>, and the keys of \<open>actual\<close> that \<open>expected\<close> lacks, in the order of
  \<open>actual\<close>.
\<close>

definition missingKeys :: "('k \<times> 'v) list \<Rightarrow> ('k \<times> 'v) list \<Rightarrow> 'k list" where
  "missingKeys expectedMap actualMap =
     filter (\<lambda>k. \<not> Map_has actualMap k) (Map_keys expectedMap)"

definition extraKeys :: "('k \<times> 'v) list \<Rightarrow> ('k \<times> 'v) list \<Rightarrow> 'k list" where
  "extraKeys expectedMap actualMap =
     filter (\<lambda>k. \<not> Map_has expectedMap k) (Map_keys actualMap)"

text \<open>
  The \<open>else\<close> branch of the first loop for tables, views and columns: the entries of
  \<open>expected\<close> whose key \<open>actual\<close> has are compared, and the comparisons that \<open>keep\<close>
  accepts are collected in order.
\<close>

definition modifiedEntries ::
  "('v \<Rightarrow> 'v \<Rightarrow> 'd) \<Rightarrow> ('d \<Rightarrow> bool) \<Rightarrow> ('k \<times> 'v) list \<Rightarrow> ('k \<times> 'v) list \<Rightarrow> 'd list" where
  "modifiedEntries compare keep expectedMap actualMap =
     List.map_filter
       (\<lambda>(k, e). case Map_get actualMap k of
                   None \<Rightarrow> None
                 | Some a \<Rightarrow> (let d = compare e a in if keep d then Some d else None))
       expectedMap"

definition compareTable :: "Table \<Rightarrow> Table \<Rightarrow> TableDrift" where
  "compareTable expected actual =
     (let expectedColumnMap = new_Map (map (\<lambda>c. (col_name c, c)) (tbl_columns expected));
          actualColumnMap = new_Map (map (\<lambda>c. (col_name c, c)) (tbl_columns actual));
          expectedConstraintMap =
            new_Map (map (\<lambda>c. (con_name c, c)) (tbl_constraints expected));
          actualConstraintMap =
            new_Map (map (\<lambda>c. (con_name c, c)) (tbl_constraints actual))
      in \<lparr>tableName = tbl_schema expected @ ''.'' @ tbl_name expected,
          missingColumns = missingKeys expectedColumnMap actualColumnMap,
          extraColumns = extraKeys expectedColumnMap actualColumnMap,
          modifiedColumns =
            modifiedEntries compareColumn (\<lambda>d. length (changes d) > 0)
              expectedColumnMap actualColumnMap,
          missingConstraints = missingKeys expectedConstraintMap actualConstraintMap,
          extraConstraints = extraKeys expectedConstraintMap actualConstraintMap\<rparr>)"

definition compareView :: "View \<Rightarrow> View \<Rightarrow> ViewDrift" where
  "compareView expected actual =
     (let definitionChanged = (trim (view_definition expected) \<noteq> trim (view_definition actual))
      in \<lparr>viewName = view_schema expected @ ''.'' @ view_name expected,
          definitionChanged = definitionChanged,
          oldDefinition = (if definitionChanged then Some (view_definition actual) else None),
          newDefinition = (if definitionChanged then Some (view_definition expected) else None)\<rparr>)"

definition hasTableChanges :: "TableDrift \<Rightarrow> bool" where
  "hasTableChanges tableDrift =
     (length (missingColumns tableDrift) > 0
      \<or> length (extraColumns tableDrift) > 0
      \<or> length (modifiedColumns tableDrift) > 0
      \<or> length (missingConstraints tableDrift) > 0
      \<or> length (extraConstraints tableDrift) > 0)"

definition generateSummary ::
  "bool \<Rightarrow> string list \<Rightarrow> string list \<Rightarrow> TableDrift list \<Rightarrow> string" where
  "generateSummary hasChanges' missingTables' extraTables' modifiedTables' =
     (if \<not> hasChanges' then
        ''No schema drift detected. Database schema matches migrations.''
      else
        (let parts =
           (if length missingTables' > 0 then
              [showNat (length missingTables') @ '' table(s) missing from database'']
            else []) @
           (if length extraTables' > 0 then
              [showNat (length extraTables') @ '' extra table(s) in database'']
            else []) @
           (if length modifiedTables' > 0 then
              [showNat (length modifiedTables') @ '' table(s) have structural changes'']
            else [])
         in ''Schema drift detected: '' @ join '', '' parts @ ''.''))"

definition compareSchemas :: "DatabaseSchema \<Rightarrow> DatabaseSchema \<Rightarrow> SchemaDrift" where
  "compareSchemas expected actual =
     (let expectedTableMap =
            new_Map (map (\<lambda>t. (tbl_schema t @ ''.'' @ tbl_name t, t)) (tables expected));
          actualTableMap =
            new_Map (map (\<lambda>t. (tbl_schema t @ ''.'' @ tbl_name t, t)) (tables actual));
          missingTables' = missingKeys expectedTableMap actualTableMap;
          modifiedTables' =
            modifiedEntries compareTable hasTableChanges expectedTableMap actualTableMap;
          extraTables' = extraKeys expectedTableMap actualTableMap;
          expectedIndexMap =
            new_Map (map (\<lambda>i. (idx_schemaName i @ ''.'' @ idx_tableName i @ ''.'' @ idx_name i, i))
              (indexes expected));
          actualIndexMap =
            new_Map (map (\<lambda>i. (idx_schemaName i @ ''.'' @ idx_tableName i @ ''.'' @ idx_name i, i))
              (indexes actual));
          missingIndexes' = missingKeys expectedIndexMap actualIndexMap;
          extraIndexes' = extraKeys expectedIndexMap actualIndexMap;
          expectedViewMap =
            new_Map (map (\<lambda>v. (view_schema v @ ''.'' @ view_name v, v)) (views expected));
          actualViewMap =
            new_Map (map (\<lambda>v. (view_schema v @ ''.'' @ view_name v, v)) (views actual));
          missingViews' = missingKeys expectedViewMap actualViewMap;
          modifiedViews' =
            modifiedEntries compareView definitionChanged expectedViewMap actualViewMap;
          extraViews' = extraKeys expectedViewMap actualViewMap;
          expectedTriggerMap =
            new_Map (map (\<lambda>t. (trg_schema t @ ''.'' @ trg_tableName t @ ''.'' @ trg_name t, t))
              (triggers expected));
          actualTriggerMap =
            new_Map (map (\<lambda>t. (trg_schema t @ ''.'' @ trg_tableName t @ ''.'' @ trg_name t, t))
              (triggers actual));
          missingTriggers' = missingKeys expectedTriggerMap actualTriggerMap;
          extraTriggers' = extraKeys expectedTriggerMap actualTriggerMap;
          expectedRLSMap =
            new_Map (map (\<lambda>p. (pol_schema p @ ''.'' @ pol_tableName p @ ''.'' @ pol_policyName p, p))
              (rlsPolicies expected));
          actualRLSMap =
            new_Map (map (\<lambda>p. (pol_schema p @ ''.'' @ pol_tableName p @ ''.'' @ pol_policyName p, p))
              (rlsPolicies actual));
          missingRLSPolicies' = missingKeys expectedRLSMap actualRLSMap;
          extraRLSPolicies' = extraKeys expectedRLSMap actualRLSMap;
          hasChanges' =
            (length missingTables' > 0
             \<or> length extraTables' > 0
             \<or> length modifiedTables' > 0
             \<or> length missingIndexes' > 0
             \<or> length extraIndexes' > 0
             \<or> length missingViews' > 0
             \<or> length extraViews' > 0
             \<or> length modifiedViews' > 0
             \<or> length missingTriggers' > 0
             \<or> length extraTriggers' > 0
             \<or> length missingRLSPolicies' > 0
             \<or> length extraRLSPolicies' > 0)
      in \<lparr>hasChanges = hasChanges',
          missingTables = missingTables',
          extraTables = extraTables',
          modifiedTables = modifiedTables',
          missingIndexes = missingIndexes',
          extraIndexes = extraIndexes',
          missingViews = missingViews',
          extraViews = extraViews',
          modifiedViews = modifiedViews',
          missingTriggers = missingTriggers',
          extraTriggers = extraTriggers',
          missingRLSPolicies = missingRLSPolicies',
          extraRLSPolicies = extraRLSPolicies',
          summary = generateSummary hasChanges' missingTables' extraTables' modifiedTables'\<rparr>)"

definition compareSchemasWithMigrations :: "DatabaseSchema \<Rightarrow> Migration list \<Rightarrow> SchemaDrift" where
  "compareSchemasWithMigrations currentSchema migrations =
     compareSchemas (buildExpectedSchemaFromMigrations migrations) currentSchema"

section \<open>Migration files (types/migration.ts)\<close>

record ParsedMigration =
  pm_version :: string
  pm_name :: string
  pm_upSql :: string
  pm_downSql :: string
  pm_hasValidStructure :: bool
  pm_errors :: "string list"

record MigrationFile =
  mf_filename :: string
  mf_content :: string
  mf_parsed :: ParsedMigration

record AppliedMigration =
  am_version :: string
  am_appliedAt :: int

datatype MigrationErrorType = PARSE_ERROR | DUPLICATE_VERSION | MISSING_DOWN | INVALID_VERSION



record MigrationHistory =
  mh_appliedMigrations :: "AppliedMigration list"
  mh_pendingMigrations :: "Migration list"
  mh_totalMigrations :: int
  mh_lastAppliedVersion :: "string option"
  mh_migrationChain :: "Migration list"

section \<open>The file system\<close>

text \<open>
  A file-system error carries its \<open>code\<close>. The file system is seen from the migrations
  directory: \<open>fs_readdir\<close> is the outcome of \<open>fs.readdir(migrationsDir)\<close> and
  \<open>fs_readFile name\<close> the outcome of \<open>fs.readFile(join(migrationsDir, name))\<close>; \<open>Inl\<close>
  is a rejected promise.
\<close>

datatype fs_error = FsError (code: string)

record FileSystem =
  fs_readdir :: "fs_error + string list"
  fs_readFile :: "string \<Rightarrow> fs_error + string"

section \<open>Sorting\<close>

text \<open>
  \<open>xs.sort(cmp)\<close> is stable. It is modelled by insertion from the right, an element going
  before the first element it does not exceed; for a comparator that orders the elements
  consistently every stable sort returns this list.
\<close>

fun insertSorted :: "('a \<Rightarrow> 'a \<Rightarrow> int) \<Rightarrow> 'a \<Rightarrow> 'a list \<Rightarrow> 'a list" where
  "insertSorted cmp x [] = [x]"
| "insertSorted cmp x (y # ys) =
     (if cmp x y \<le> 0 then x # y # ys else y # insertSorted cmp x ys)"

definition Array_sort :: "('a \<Rightarrow> 'a \<Rightarrow> int) \<Rightarrow> 'a list \<Rightarrow> 'a list" where
  "Array_sort cmp xs = foldr (insertSorted cmp) xs []"

text \<open>
  \<open>a.localeCompare(b)\<close> on version strings, which are runs of digits (or empty): the
  comparison by code unit, a proper prefix first.
\<close>

fun localeCompare :: "string \<Rightarrow> string \<Rightarrow> int" where
  "localeCompare [] [] = 0"
| "localeCompare [] (y # ys) = - 1"
| "localeCompare (x # xs) [] = 1"
| "localeCompare (x # xs) (y # ys) =
     (if x = y then localeCompare xs ys
      else if (of_char x :: nat) < of_char y then - 1 else 1)"

section \<open>The migration parser (services/migration-parser.ts)\<close>

text \<open>\<open>/^(\d+)/\<close> and \<open>/^\d+_(.+)\.sql$/\<close>: anchored at the start, without the flag \<open>i\<close>.\<close>

definition extractVersion :: "string \<Rightarrow> string option" where
  "extractVersion filename =
     (case rmatch False [CapPlus 1 Digit] filename [] of
        None \<Rightarrow> None
      | Some m \<Rightarrow> grp m 1)"

definition extractName :: "string \<Rightarrow> string option" where
  "extractName filename =
     (case rmatch False [Plus Digit, Lit ''_'', CapPlus 1 AnyChar, Lit ''.sql'', End] filename [] of
        None \<Rightarrow> None
      | Some m \<Rightarrow>
          map_option (map (\<lambda>c. if c = CHR ''_'' then CHR '' '' else c)) (grp m 1))"

datatype current_section = SectionUp | SectionDown | SectionNone

text \<open>One turn of the loop of \<open>parseMigrationSections\<close> on the state \<open>(upSql, downSql, currentSection)\<close>.\<close>

definition sectionStep ::
  "string \<times> string \<times> current_section \<Rightarrow> string
     \<Rightarrow> string \<times> string \<times> current_section" where
  "sectionStep st line =
     (case st of (upSql, downSql, currentSection) \<Rightarrow>
        (let trimmed = trim line in
         if startsWith trimmed ''-- migrate:up'' then (upSql, downSql, SectionUp)
         else if startsWith trimmed ''-- migrate:down'' then (upSql, downSql, SectionDown)
         else if currentSection = SectionUp then (upSql @ line @ [CHR 0x0A], downSql, currentSection)
         else if currentSection = SectionDown then
           (upSql, downSql @ line @ [CHR 0x0A], currentSection)
         else (upSql, downSql, currentSection)))"

definition parseMigrationSections :: "string \<Rightarrow> string \<times> string" where
  "parseMigrationSections content =
     (case foldl sectionStep ([], [], SectionNone) (split (CHR 0x0A) content) of
        (upSql, downSql, currentSection) \<Rightarrow> (trim upSql, trim downSql))"

definition parseMigrationContent :: "string \<Rightarrow> string \<Rightarrow> ParsedMigration" where
  "parseMigrationContent filename content =
     (let version = extractVersion filename;
          name = extractName filename;
          (upSql, downSql) = parseMigrationSections content;
          errors' =
            (if orElse version [] = [] then
               [''Invalid filename format: unable to extract version'']
             else []) @
            (if trim upSql = [] then [''Missing or empty migrate:up section''] else []) @
            (if trim downSql = [] then [''Missing or empty migrate:down section''] else [])
      in \<lparr>pm_version = orElse version [], pm_name = orElse name [],
          pm_upSql = upSql, pm_downSql = downSql,
          pm_hasValidStructure = (length errors' = 0), pm_errors = errors'\<rparr>)"

text \<open>The loop of \<open>parseMigrationFiles\<close>: the first read that fails ends it.\<close>

fun readFiles :: "FileSystem \<Rightarrow> string list \<Rightarrow> fs_error + MigrationFile list" where
  "readFiles fs [] = Inr []"
| "readFiles fs (filename # rest) =
     (case fs_readFile fs filename of
        Inl e \<Rightarrow> Inl e
      | Inr content \<Rightarrow>
          (case readFiles fs rest of
             Inl e \<Rightarrow> Inl e
           | Inr parsedFiles \<Rightarrow>
               Inr (\<lparr>mf_filename = filename, mf_content = content,
                     mf_parsed = parseMigrationContent filename content\<rparr> # parsedFiles)))"

definition parseMigrationFiles :: "FileSystem \<Rightarrow> fs_error + MigrationFile list" where
  "parseMigrationFiles fs =
     (case (case fs_readdir fs of
              Inl e \<Rightarrow> Inl e
            | Inr files \<Rightarrow>
                (case readFiles fs (filter (\<lambda>file. endsWith file ''.sql'') files) of
                   Inl e \<Rightarrow> Inl e
                 | Inr parsedFiles \<Rightarrow>
                     Inr (Array_sort
                       (\<lambda>a b. localeCompare (pm_version (mf_parsed a)) (pm_version (mf_parsed b)))
                       parsedFiles))) of
        Inl error \<Rightarrow> (if code error = ''ENOENT'' then Inr [] else Inl error)
      | Inr result \<Rightarrow> Inr result)"

definition toMigration :: "MigrationFile \<Rightarrow> Migration" where
  "toMigration file =
     \<lparr>mig_version = pm_version (mf_parsed file), mig_name = pm_name (mf_parsed file),
      mig_filename = mf_filename file, mig_upSql = pm_upSql (mf_parsed file),
      mig_downSql = pm_downSql (mf_parsed file), mig_appliedAt = None\<rparr>"








text \<open>
  \<open>getMigrationHistory\<close> sorts its argument array in place. The result is the pair of the
  array's content when the call returns and the history; the history's \<open>appliedMigrations\<close>
  is the same array. The first loop runs before the sort and reads the array as passed;
  only its pending migrations are kept. The second loop runs after the sort.
\<close>

definition getMigrationHistory ::
  "FileSystem \<Rightarrow> AppliedMigration list \<Rightarrow> fs_error + AppliedMigration list \<times> MigrationHistory" where
  "getMigrationHistory fs appliedMigrations =
     (case parseMigrationFiles fs of
        Inl e \<Rightarrow> Inl e
      | Inr files \<Rightarrow>
          (let appliedVersions = map am_version appliedMigrations;
               pendingMigrations =
                 map toMigration
                   (filter (\<lambda>file. pm_hasValidStructure (mf_parsed file)
                              \<and> pm_version (mf_parsed file) \<notin> set appliedVersions) files);
               appliedMigrations' =
                 (if length appliedMigrations > 0 then
                    Array_sort (\<lambda>a b. am_appliedAt b - am_appliedAt a) appliedMigrations
                  else appliedMigrations);
               lastAppliedVersion =
                 (if length appliedMigrations > 0 then
                    (case appliedMigrations' of
                       [] \<Rightarrow> None
                     | first # rest \<Rightarrow> Some (am_version first))
                  else None);
               migrationChain =
                 map (\<lambda>file. (toMigration file)\<lparr>mig_appliedAt :=
                        map_option am_appliedAt
                          (find (\<lambda>m. am_version m = pm_version (mf_parsed file))
                             appliedMigrations')\<rparr>)
                   (filter (\<lambda>file. pm_hasValidStructure (mf_parsed file)) files)
           in Inr (appliedMigrations',
                \<lparr>mh_appliedMigrations = appliedMigrations',
                 mh_pendingMigrations = pendingMigrations,
                 mh_totalMigrations = int (length files),
                 mh_lastAppliedVersion = lastAppliedVersion,
                 mh_migrationChain = migrationChain\<rparr>)))"

definition formatMigrationContent :: "string \<Rightarrow> string \<Rightarrow> string" where
  "formatMigrationContent upSql downSql =
     ''-- migrate:up'' @ [CHR 0x0A] @ upSql @ [CHR 0x0A, CHR 0x0A]
     @ ''-- migrate:down'' @ [CHR 0x0A] @ downSql @ [CHR 0x0A]"

text \<open>
  The number of occurrences of \<open>p\<close> in \<open>s\<close>: the number of positions of \<open>s\<close> at which \<open>p\<close>
  starts. It states the claim on the markers; the source has no such function.
\<close>

fun occurrences :: "string \<Rightarrow> string \<Rightarrow> nat" where
  "occurrences p [] = 0"
| "occurrences p (c # cs) = (if startsWith (c # cs) p then 1 else 0) + occurrences p cs"

text \<open>
  A marker line: a line that \<open>parseMigrationSections\<close> takes for \<open>-- migrate:up\<close> or
  \<open>-- migrate:down\<close>. It states the claim on the round trip.
\<close>

definition markerLine :: "string \<Rightarrow> bool" where
  "markerLine line =
     (startsWith (trim line) ''-- migrate:up'' \<or> startsWith (trim line) ''-- migrate:down'')"

section \<open>Replay: order sensitivity\<close>

lemma updateFirst_none: "\<forall>x\<in>set xs. \<not> p x \<Longrightarrow> updateFirst p f xs = xs"
  by (induction xs) auto

lemma ops_create_foo:
  "parseMigrationOperations ''CREATE TABLE foo'' =
     [\<lparr>op_type = CREATE_TABLE, op_sql = ''CREATE TABLE foo''\<rparr>]"
  by code_simp

lemma ops_add_bar:
  "parseMigrationOperations ''ALTER TABLE foo ADD COLUMN bar'' =
     [\<lparr>op_type = ADD_COLUMN, op_sql = ''ALTER TABLE foo ADD COLUMN bar''\<rparr>]"
  by code_simp

lemma match_create_foo:
  "rsearch True createTableRe ''CREATE TABLE foo'' = Some [(2, ''foo'')]"
  by code_simp

lemma match_add_bar:
  "rsearch True addColumnRe ''ALTER TABLE foo ADD COLUMN bar'' =
     Some [(3, ''bar''), (2, ''foo'')]"
  by code_simp

lemma applyCreateTable_foo:
  "applyCreateTable s ''CREATE TABLE foo'' =
     s\<lparr>tables := tables s @ [\<lparr>tbl_schema = ''public'', tbl_name = ''foo'', tbl_columns = [],
        tbl_constraints = [], tbl_indexes = []\<rparr>]\<rparr>"
  unfolding applyCreateTable_def match_create_foo by (simp add: grp_def)

lemma applyAddColumn_bar:
  "applyAddColumn s ''ALTER TABLE foo ADD COLUMN bar'' =
     s\<lparr>tables := updateFirst (\<lambda>t. tbl_schema t = ''public'' \<and> tbl_name t = ''foo'')
        (\<lambda>t. t\<lparr>tbl_columns := tbl_columns t @
           [\<lparr>col_name = ''bar'', col_dataType = ''text'', col_isNullable = True,
             col_defaultValue = None, col_isGenerated = False,
             col_ordinalPosition = int (length (tbl_columns t)) + 1,
             col_characterMaximumLength = None, col_numericPrecision = None,
             col_numericScale = None\<rparr>]\<rparr>) (tables s)\<rparr>"
  unfolding applyAddColumn_def match_add_bar by (simp add: grp_def)

text \<open>
  Claim C1. With \<open>A\<close> a migration whose up SQL is \<open>CREATE TABLE foo\<close> and \<open>B\<close> one whose up
  SQL is \<open>ALTER TABLE foo ADD COLUMN bar\<close>, replaying \<open>[A, B]\<close> from the empty model gives
  the model whose only table is \<open>public.foo\<close> with the single column \<open>bar\<close>, and replaying
  \<open>[B, A]\<close> gives the model whose only table is \<open>public.foo\<close> with no column. Adding the
  column to any model that has no table \<open>public.foo\<close> leaves that model unchanged.
\<close>

theorem replay_order_sensitive:
  fixes a b :: Migration
  shows "buildExpectedSchemaFromMigrations
           [a\<lparr>mig_upSql := ''CREATE TABLE foo''\<rparr>,
            b\<lparr>mig_upSql := ''ALTER TABLE foo ADD COLUMN bar''\<rparr>] =
         emptySchema\<lparr>tables :=
           [\<lparr>tbl_schema = ''public'', tbl_name = ''foo'',
             tbl_columns = [\<lparr>col_name = ''bar'', col_dataType = ''text'', col_isNullable = True,
                col_defaultValue = None, col_isGenerated = False, col_ordinalPosition = 1,
                col_characterMaximumLength = None, col_numericPrecision = None,
                col_numericScale = None\<rparr>],
             tbl_constraints = [], tbl_indexes = []\<rparr>]\<rparr>
       \<and> buildExpectedSchemaFromMigrations
           [b\<lparr>mig_upSql := ''ALTER TABLE foo ADD COLUMN bar''\<rparr>,
            a\<lparr>mig_upSql := ''CREATE TABLE foo''\<rparr>] =
         emptySchema\<lparr>tables :=
           [\<lparr>tbl_schema = ''public'', tbl_name = ''foo'', tbl_columns = [],
             tbl_constraints = [], tbl_indexes = []\<rparr>]\<rparr>
       \<and> (\<forall>s. (\<forall>t \<in> set (tables s). \<not> (tbl_schema t = ''public'' \<and> tbl_name t = ''foo''))
              \<longrightarrow> applyAddColumn s ''ALTER TABLE foo ADD COLUMN bar'' = s)"
  by (simp add: buildExpectedSchemaFromMigrations_def applyMigrationToSchema_def
      ops_create_foo ops_add_bar applyOperation_def applyCreateTable_foo applyAddColumn_bar
      emptySchema_def updateFirst_none)

theorem replay_order_sensitive_witness:
  "applyAddColumn
     (emptySchema\<lparr>tables := [\<lparr>tbl_schema = ''public'', tbl_name = ''other'', tbl_columns = [],
        tbl_constraints = [], tbl_indexes = []\<rparr>]\<rparr>)
     ''ALTER TABLE foo ADD COLUMN bar'' =
   emptySchema\<lparr>tables := [\<lparr>tbl_schema = ''public'', tbl_name = ''other'', tbl_columns = [],
        tbl_constraints = [], tbl_indexes = []\<rparr>]\<rparr>"
proof -
  let ?s = "emptySchema\<lparr>tables := [\<lparr>tbl_schema = ''public'', tbl_name = ''other'',
    tbl_columns = [], tbl_constraints = [], tbl_indexes = []\<rparr>]\<rparr>"
  have h: "\<forall>t \<in> set (tables ?s). \<not> (tbl_schema t = ''public'' \<and> tbl_name t = ''foo'')"
    by simp
  from replay_order_sensitive have
    "\<forall>s. (\<forall>t \<in> set (tables s). \<not> (tbl_schema t = ''public'' \<and> tbl_name t = ''foo''))
        \<longrightarrow> applyAddColumn s ''ALTER TABLE foo ADD COLUMN bar'' = s"
    by blast
  with h show ?thesis by blast
qed

section \<open>Replay: the statements the classifier tags\<close>

lemma classify_types:
  "classify st = Some opn \<Longrightarrow>
     op_type opn \<in> {CREATE_TABLE, DROP_TABLE, ADD_COLUMN, DROP_COLUMN, CREATE_INDEX, DROP_INDEX}"
  by (auto simp: classify_def Let_def split: if_splits)

lemma parse_types:
  "opn \<in> set (parseMigrationOperations sql) \<Longrightarrow>
     op_type opn \<in> {CREATE_TABLE, DROP_TABLE, ADD_COLUMN, DROP_COLUMN, CREATE_INDEX, DROP_INDEX}"
proof -
  assume "opn \<in> set (parseMigrationOperations sql)"
  then obtain st where "classify st = Some opn"
    by (auto simp: parseMigrationOperations_def List.map_filter_def)
  then show ?thesis by (rule classify_types)
qed

lemma applyOperation_other_families:
  assumes "op_type opn \<in> {CREATE_TABLE, DROP_TABLE, ADD_COLUMN, DROP_COLUMN, CREATE_INDEX, DROP_INDEX}"
  shows "views (applyOperation s opn) = views s
       \<and> triggers (applyOperation s opn) = triggers s
       \<and> rlsPolicies (applyOperation s opn) = rlsPolicies s"
  using assms
  by (auto simp: applyOperation_def applyCreateTable_def applyDropTable_def applyAddColumn_def
      applyDropColumn_def applyCreateIndex_def applyDropIndex_def split: option.splits)

lemma foldl_applyOperation_other_families:
  assumes "\<forall>opn \<in> set ops. op_type opn \<in> {CREATE_TABLE, DROP_TABLE, ADD_COLUMN, DROP_COLUMN, CREATE_INDEX, DROP_INDEX}"
  shows "views (foldl applyOperation s ops) = views s
       \<and> triggers (foldl applyOperation s ops) = triggers s
       \<and> rlsPolicies (foldl applyOperation s ops) = rlsPolicies s"
  using assms
proof (induction ops arbitrary: s)
  case Nil
  then show ?case by simp
next
  case (Cons x xs)
  then show ?case using applyOperation_other_families[of x s] by simp
qed

lemma applyMigration_other_families:
  "views (applyMigrationToSchema s m) = views s
   \<and> triggers (applyMigrationToSchema s m) = triggers s
   \<and> rlsPolicies (applyMigrationToSchema s m) = rlsPolicies s"
  unfolding applyMigrationToSchema_def
  by (rule foldl_applyOperation_other_families) (use parse_types in blast)

lemma foldl_applyMigration_other_families:
  "views (foldl applyMigrationToSchema s ms) = views s
   \<and> triggers (foldl applyMigrationToSchema s ms) = triggers s
   \<and> rlsPolicies (foldl applyMigrationToSchema s ms) = rlsPolicies s"
  by (induction ms arbitrary: s) (simp_all add: applyMigration_other_families)

lemma ops_create_view: "parseMigrationOperations ''CREATE VIEW v AS SELECT 1'' = []"
  by code_simp

lemma match_create_view:
  "rsearch True createViewRe ''CREATE VIEW v AS SELECT 1'' = Some [(2, ''v'')]"
  by code_simp

text \<open>
  Claim C2. The classifier tags no \<open>CREATE VIEW\<close>, \<open>DROP VIEW\<close>, \<open>CREATE TRIGGER\<close>,
  \<open>DROP TRIGGER\<close>, \<open>CREATE POLICY\<close> or \<open>DROP POLICY\<close> statement: the statement
  \<open>CREATE VIEW v AS SELECT 1\<close> yields no operation, replaying a migration made of it
  leaves the model empty, although \<open>applyCreateView\<close> on the same statement would insert
  the view \<open>public.v\<close>; and whatever the migrations, the replayed model has no view, no
  trigger and no policy.
\<close>

theorem replay_ignores_views:
  fixes a :: Migration
  shows "parseMigrationOperations ''CREATE VIEW v AS SELECT 1'' = []
       \<and> buildExpectedSchemaFromMigrations [a\<lparr>mig_upSql := ''CREATE VIEW v AS SELECT 1''\<rparr>] = emptySchema
       \<and> views (applyCreateView emptySchema ''CREATE VIEW v AS SELECT 1'') =
           [\<lparr>view_schema = ''public'', view_name = ''v'',
             view_definition = ''CREATE VIEW v AS SELECT 1'', view_columns = [], view_owner = [],
             view_dependencies = [], view_isUpdatable = False, view_hasInsteadOfTriggers = False\<rparr>]
       \<and> (\<forall>ms. views (buildExpectedSchemaFromMigrations ms) = []
              \<and> triggers (buildExpectedSchemaFromMigrations ms) = []
              \<and> rlsPolicies (buildExpectedSchemaFromMigrations ms) = [])"
proof -
  have 1: "buildExpectedSchemaFromMigrations [a\<lparr>mig_upSql := ''CREATE VIEW v AS SELECT 1''\<rparr>] = emptySchema"
    by (simp add: buildExpectedSchemaFromMigrations_def applyMigrationToSchema_def ops_create_view)
  have 2: "views (applyCreateView emptySchema ''CREATE VIEW v AS SELECT 1'') =
           [\<lparr>view_schema = ''public'', view_name = ''v'',
             view_definition = ''CREATE VIEW v AS SELECT 1'', view_columns = [], view_owner = [],
             view_dependencies = [], view_isUpdatable = False, view_hasInsteadOfTriggers = False\<rparr>]"
    unfolding applyCreateView_def match_create_view by (simp add: grp_def emptySchema_def)
  have 3: "views (buildExpectedSchemaFromMigrations ms) = []
              \<and> triggers (buildExpectedSchemaFromMigrations ms) = []
              \<and> rlsPolicies (buildExpectedSchemaFromMigrations ms) = []" for ms
    unfolding buildExpectedSchemaFromMigrations_def
    using foldl_applyMigration_other_families[of emptySchema ms] by (simp add: emptySchema_def)
  from ops_create_view 1 2 3 show ?thesis by blast
qed

section \<open>Replay: dropping an index\<close>

lemma inClass_eqs: "inClass Word = isWord" "inClass Space = isSpace" "inClass Digit = isDigit"
  by (rule ext, simp)+

lemma backtrack_top: "0 < n \<Longrightarrow> f n = Some r \<Longrightarrow> backtrack n f = Some r"
  by (cases n) simp_all

lemma isWord_not_isSpace: "isWord c \<Longrightarrow> \<not> isSpace c"
  by (auto simp: isWord_def isSpace_def)

lemma toUpper_word_not_blank: "isWord c \<Longrightarrow> toUpper c \<noteq> CHR '' ''"
  by (auto simp: isWord_def toUpper_def)

lemma takeWhile_isSpace_word: "\<forall>c \<in> set n. isWord c \<Longrightarrow> takeWhile isSpace n = []"
  by (cases n) (auto simp: isWord_not_isSpace)

lemma takeWhile_isWord_word: "\<forall>c \<in> set n. isWord c \<Longrightarrow> takeWhile isWord n = n"
  by (induction n) auto

lemma litMatches_blank:
  assumes "litMatches True l n" and "CHR '' '' \<in> set l"
  shows "\<exists>c \<in> set n. toUpper c = CHR '' ''"
proof -
  from assms(1) have eq: "map toUpper (take (length l) n) = map toUpper l"
    by (simp add: litMatches_def)
  have "toUpper (CHR '' '') = CHR '' ''" by (simp add: toUpper_def)
  with assms(2) have "CHR '' '' \<in> set (map toUpper l)" by force
  with eq have "CHR '' '' \<in> toUpper ` set (take (length l) n)" by (metis set_map)
  then obtain c where "c \<in> set (take (length l) n)" "toUpper c = CHR '' ''" by auto
  then show ?thesis by (meson in_set_takeD)
qed

lemma rmatch_Opt_skip:
  "rmatch ci (body @ r) s c = None \<Longrightarrow> rmatch ci (Opt body # r) s c = rmatch ci r s c"
  by simp

lemma rmatch_Lit_fail: "\<not> litMatches ci l s \<Longrightarrow> rmatch ci (Lit l # r) s c = None"
  by simp

lemma rmatch_Lit_Space_fail:
  "takeWhile isSpace (drop (length l) s) = [] \<Longrightarrow> rmatch ci (Lit l # Plus Space # r) s c = None"
  by (simp add: inClass_eqs)

lemma rmatch_Lit_ok:
  "litMatches ci l (l' @ s) \<Longrightarrow> length l' = length l \<Longrightarrow>
     rmatch ci (Lit l # r) (l' @ s) c = rmatch ci r s c"
  by simp

lemma rmatch_one_space:
  "isSpace x \<Longrightarrow> takeWhile isSpace s = [] \<Longrightarrow>
     rmatch ci (Plus Space # r) (x # s) c = rmatch ci r s c"
  by (simp add: inClass_eqs split: option.split)

lemma rmatch_CapPlus_word_end:
  assumes "n \<noteq> []" and "\<forall>c \<in> set n. isWord c"
  shows "rmatch ci [CapPlus g Word] n c = Some ((g, n) # c)"
proof -
  have "backtrack (length n) (\<lambda>i. Some ((g, take i n) # c)) = Some ((g, n) # c)"
    using assms(1) by (intro backtrack_top) simp_all
  then show ?thesis using assms(2) by (simp add: inClass_eqs takeWhile_isWord_word)
qed

lemma dropIndex_match:
  assumes ne: "n \<noteq> []" and w: "\<forall>c \<in> set n. isWord c"
  shows "rsearch True dropIndexRe (''DROP INDEX '' @ n) = Some [(1, n)]"
proof -
  have 1: "rmatch True [CapPlus 1 Word] n [] = Some [(1, n)]"
    using ne w by (rule rmatch_CapPlus_word_end)
  have "\<not> litMatches True ''IF EXISTS'' n"
    using litMatches_blank[of "''IF EXISTS''" n] w toUpper_word_not_blank by auto
  then have "rmatch True ([Lit ''IF EXISTS'', Plus Space] @ [CapPlus 1 Word]) n [] = None"
    by (simp del: rmatch.simps add: rmatch_Lit_fail)
  then have 2: "rmatch True [Opt [Lit ''IF EXISTS'', Plus Space], CapPlus 1 Word] n [] =
      Some [(1, n)]"
    using 1 by (simp del: rmatch.simps add: rmatch_Opt_skip)
  have "\<forall>c \<in> set (drop (length ''CONCURRENTLY'') n). isWord c"
    using w by (meson in_set_dropD)
  then have "takeWhile isSpace (drop (length ''CONCURRENTLY'') n) = []"
    by (rule takeWhile_isSpace_word)
  then have "rmatch True ([Lit ''CONCURRENTLY'', Plus Space] @
      [Opt [Lit ''IF EXISTS'', Plus Space], CapPlus 1 Word]) n [] = None"
    by (simp del: rmatch.simps add: rmatch_Lit_Space_fail)
  then have 3: "rmatch True [Opt [Lit ''CONCURRENTLY'', Plus Space],
      Opt [Lit ''IF EXISTS'', Plus Space], CapPlus 1 Word] n [] = Some [(1, n)]"
    using 2 by (simp del: rmatch.simps add: rmatch_Opt_skip)
  have "litMatches True ''DROP INDEX'' (''DROP INDEX'' @ CHR '' '' # n)"
    by (simp add: litMatches_def)
  then have "rmatch True dropIndexRe (''DROP INDEX'' @ CHR '' '' # n) [] =
      rmatch True [Plus Space, Opt [Lit ''CONCURRENTLY'', Plus Space],
        Opt [Lit ''IF EXISTS'', Plus Space], CapPlus 1 Word] (CHR '' '' # n) []"
    unfolding dropIndexRe_def by (rule rmatch_Lit_ok) simp
  also have "\<dots> = Some [(1, n)]"
    using 3 w by (simp del: rmatch.simps add: rmatch_one_space takeWhile_isSpace_word isSpace_def)
  finally have 4: "rmatch True dropIndexRe (''DROP INDEX '' @ n) [] = Some [(1, n)]"
    by simp
  have "rsearch True dropIndexRe (CHR ''D'' # ''ROP INDEX '' @ n) = Some [(1, n)]"
    using 4 by (simp del: rmatch.simps)
  then show ?thesis by simp
qed

lemma ops_two_indexes:
  "parseMigrationOperations ''CREATE INDEX idx ON a (x); CREATE INDEX idx ON other.b (y)'' =
     [\<lparr>op_type = CREATE_INDEX, op_sql = ''CREATE INDEX idx ON a (x)''\<rparr>,
      \<lparr>op_type = CREATE_INDEX, op_sql = ''CREATE INDEX idx ON other.b (y)''\<rparr>]"
  by code_simp

lemma ops_drop_idx:
  "parseMigrationOperations ''DROP INDEX idx'' =
     [\<lparr>op_type = DROP_INDEX, op_sql = ''DROP INDEX idx''\<rparr>]"
  by code_simp

lemma match_create_idx_a:
  "rsearch True createIndexRe ''CREATE INDEX idx ON a (x)'' = Some [(3, ''a''), (1, ''idx'')]"
  by code_simp

lemma match_create_idx_b:
  "rsearch True createIndexRe ''CREATE INDEX idx ON other.b (y)'' =
     Some [(3, ''b''), (2, ''other''), (1, ''idx'')]"
  by code_simp

lemma match_drop_idx: "rsearch True dropIndexRe ''DROP INDEX idx'' = Some [(1, ''idx'')]"
  by code_simp

lemma flags_idx_a:
  "includesStr (toUpperCase ''CREATE INDEX idx ON a (x)'') ''UNIQUE'' = False"
  "includesStr (toUpperCase ''CREATE INDEX idx ON a (x)'') ''CONCURRENTLY'' = False"
  by code_simp+

lemma flags_idx_b:
  "includesStr (toUpperCase ''CREATE INDEX idx ON other.b (y)'') ''UNIQUE'' = False"
  "includesStr (toUpperCase ''CREATE INDEX idx ON other.b (y)'') ''CONCURRENTLY'' = False"
  by code_simp+

lemma applyCreateIndex_a:
  "applyCreateIndex s ''CREATE INDEX idx ON a (x)'' =
     s\<lparr>indexes := indexes s @
       [\<lparr>idx_name = ''idx'', idx_tableName = ''a'', idx_schemaName = ''public'',
         idx_columns = [], idx_isUnique = False, idx_isPrimary = False, idx_method = ''btree'',
         idx_isConcurrent = False\<rparr>]\<rparr>"
  unfolding applyCreateIndex_def match_create_idx_a flags_idx_a by (simp add: grp_def)

lemma applyCreateIndex_b:
  "applyCreateIndex s ''CREATE INDEX idx ON other.b (y)'' =
     s\<lparr>indexes := indexes s @
       [\<lparr>idx_name = ''idx'', idx_tableName = ''b'', idx_schemaName = ''other'',
         idx_columns = [], idx_isUnique = False, idx_isPrimary = False, idx_method = ''btree'',
         idx_isConcurrent = False\<rparr>]\<rparr>"
  unfolding applyCreateIndex_def match_create_idx_b flags_idx_b by (simp add: grp_def)

lemma applyDropIndex_idx:
  "applyDropIndex s ''DROP INDEX idx'' =
     s\<lparr>indexes := filter (\<lambda>i. idx_name i \<noteq> ''idx'') (indexes s)\<rparr>"
  unfolding applyDropIndex_def match_drop_idx by (simp add: grp_def)

lemma applyDropIndex_unqualified:
  assumes "n \<noteq> []" and "\<forall>c \<in> set n. isWord c"
  shows "applyDropIndex s (''DROP INDEX '' @ n) =
           s\<lparr>indexes := filter (\<lambda>i. idx_name i \<noteq> n) (indexes s)\<rparr>"
  unfolding applyDropIndex_def dropIndex_match[OF assms] by (simp add: grp_def)

lemma ops_drop_other_idx:
  "parseMigrationOperations ''DROP INDEX other.idx'' =
     [\<lparr>op_type = DROP_INDEX, op_sql = ''DROP INDEX other.idx''\<rparr>]"
  by code_simp

lemma match_drop_other_idx:
  "rsearch True dropIndexRe ''DROP INDEX other.idx'' = Some [(1, ''other'')]"
  by code_simp

lemma applyDropIndex_other_idx:
  "applyDropIndex s ''DROP INDEX other.idx'' =
     s\<lparr>indexes := filter (\<lambda>i. idx_name i \<noteq> ''other'') (indexes s)\<rparr>"
  unfolding applyDropIndex_def match_drop_other_idx by (simp add: grp_def)

text \<open>
  The sibling \<open>applyDropTable\<close> reads the schema of a qualified name: of two tables named
  \<open>b\<close>, \<open>DROP TABLE other.b\<close> removes the one in \<open>other\<close> and keeps the one in \<open>public\<close>.
\<close>

lemma match_drop_table_other_b:
  "rsearch True dropTableRe ''DROP TABLE other.b'' = Some [(2, ''b''), (1, ''other'')]"
  by code_simp

lemma dropTable_reads_schema:
  "applyDropTable
     (emptySchema\<lparr>tables :=
        [\<lparr>tbl_schema = ''public'', tbl_name = ''b'', tbl_columns = [], tbl_constraints = [],
          tbl_indexes = []\<rparr>,
         \<lparr>tbl_schema = ''other'', tbl_name = ''b'', tbl_columns = [], tbl_constraints = [],
          tbl_indexes = []\<rparr>]\<rparr>)
     ''DROP TABLE other.b'' =
   emptySchema\<lparr>tables :=
        [\<lparr>tbl_schema = ''public'', tbl_name = ''b'', tbl_columns = [], tbl_constraints = [],
          tbl_indexes = []\<rparr>]\<rparr>"
  unfolding applyDropTable_def match_drop_table_other_b by (simp add: grp_def emptySchema_def)

text \<open>
  Claim C6. The code departs from the claim: \<open>applyDropIndex\<close> reads no schema and
  compares index names only. After an index \<open>idx\<close> is created on \<open>public.a\<close> and another
  \<open>idx\<close> on \<open>other.b\<close>, replaying \<open>DROP INDEX other.idx\<close> takes \<open>other\<close> for the index name
  and removes nothing, where the claim has the record \<open>other.b.idx\<close> removed; and replaying
  \<open>DROP INDEX idx\<close> removes both records, where the claim has the record of the other
  schema and table kept.
\<close>

theorem dropIndex_ignores_schema:
  "indexes (buildExpectedSchemaFromMigrations
      [\<lparr>mig_version = ''20240101000000'', mig_name = ''indexes'',
        mig_filename = ''20240101000000_indexes.sql'',
        mig_upSql = ''CREATE INDEX idx ON a (x); CREATE INDEX idx ON other.b (y)'',
        mig_downSql = ''DROP INDEX idx'', mig_appliedAt = None\<rparr>]) =
     [\<lparr>idx_name = ''idx'', idx_tableName = ''a'', idx_schemaName = ''public'',
       idx_columns = [], idx_isUnique = False, idx_isPrimary = False, idx_method = ''btree'',
       idx_isConcurrent = False\<rparr>,
      \<lparr>idx_name = ''idx'', idx_tableName = ''b'', idx_schemaName = ''other'',
       idx_columns = [], idx_isUnique = False, idx_isPrimary = False, idx_method = ''btree'',
       idx_isConcurrent = False\<rparr>]
   \<and> indexes (buildExpectedSchemaFromMigrations
      [\<lparr>mig_version = ''20240101000000'', mig_name = ''indexes'',
        mig_filename = ''20240101000000_indexes.sql'',
        mig_upSql = ''CREATE INDEX idx ON a (x); CREATE INDEX idx ON other.b (y)'',
        mig_downSql = ''DROP INDEX idx'', mig_appliedAt = None\<rparr>,
       \<lparr>mig_version = ''20240102000000'', mig_name = ''drop'',
        mig_filename = ''20240102000000_drop.sql'',
        mig_upSql = ''DROP INDEX other.idx'',
        mig_downSql = ''CREATE INDEX idx ON other.b (y)'', mig_appliedAt = None\<rparr>]) =
     [\<lparr>idx_name = ''idx'', idx_tableName = ''a'', idx_schemaName = ''public'',
       idx_columns = [], idx_isUnique = False, idx_isPrimary = False, idx_method = ''btree'',
       idx_isConcurrent = False\<rparr>,
      \<lparr>idx_name = ''idx'', idx_tableName = ''b'', idx_schemaName = ''other'',
       idx_columns = [], idx_isUnique = False, idx_isPrimary = False, idx_method = ''btree'',
       idx_isConcurrent = False\<rparr>]
   \<and> indexes (buildExpectedSchemaFromMigrations
      [\<lparr>mig_version = ''20240101000000'', mig_name = ''indexes'',
        mig_filename = ''20240101000000_indexes.sql'',
        mig_upSql = ''CREATE INDEX idx ON a (x); CREATE INDEX idx ON other.b (y)'',
        mig_downSql = ''DROP INDEX idx'', mig_appliedAt = None\<rparr>,
       \<lparr>mig_version = ''20240102000000'', mig_name = ''drop'',
        mig_filename = ''20240102000000_drop.sql'',
        mig_upSql = ''DROP INDEX idx'',
        mig_downSql = ''CREATE INDEX idx ON a (x)'', mig_appliedAt = None\<rparr>]) = []"
  by (simp add: buildExpectedSchemaFromMigrations_def applyMigrationToSchema_def
      ops_two_indexes ops_drop_idx ops_drop_other_idx applyOperation_def applyCreateIndex_a
      applyCreateIndex_b applyDropIndex_idx applyDropIndex_other_idx emptySchema_def)

section \<open>The diff: a model against itself\<close>

lemma Map_set_keys: "fst ` set (Map_set m k v) = insert k (fst ` set m)"
  by (induction m k v rule: Map_set.induct) auto

lemma Map_set_distinct: "distinct (map fst m) \<Longrightarrow> distinct (map fst (Map_set m k v))"
proof (induction m k v rule: Map_set.induct)
  case (1 k v)
  then show ?case by simp
next
  case (2 k' v' m k v)
  then show ?case using Map_set_keys[of m k v] by (auto simp: image_iff)
qed

lemma foldl_Map_set_distinct:
  "distinct (map fst m) \<Longrightarrow> distinct (map fst (foldl (\<lambda>m (k, v). Map_set m k v) m es))"
  by (induction es arbitrary: m) (auto simp: Map_set_distinct)

lemma new_Map_distinct: "distinct (map fst (new_Map es))"
  unfolding new_Map_def by (rule foldl_Map_set_distinct) simp

lemma Map_has_keys: "Map_has m k \<longleftrightarrow> k \<in> set (Map_keys m)"
  by (simp add: Map_has_def Map_get_def Map_keys_def map_of_eq_None_iff)

lemma missingKeys_self: "missingKeys m m = []"
  by (simp add: missingKeys_def Map_has_keys)

lemma extraKeys_self: "extraKeys m m = []"
  by (simp add: extraKeys_def Map_has_keys)

lemma map_filter_all_None: "\<forall>x \<in> set xs. f x = None \<Longrightarrow> List.map_filter f xs = []"
  by (induction xs) simp_all

lemma modifiedEntries_self:
  assumes "distinct (map fst m)" and "\<And>v. \<not> keep (compare v v)"
  shows "modifiedEntries compare keep m m = []"
  unfolding modifiedEntries_def
proof (rule map_filter_all_None, rule ballI)
  fix x assume x: "x \<in> set m"
  obtain k e where ke: "x = (k, e)" by (cases x)
  with x assms(1) have "map_of m k = Some e" by simp
  with ke assms(2) show "(case x of (k, e) \<Rightarrow> case Map_get m k of None \<Rightarrow> None
       | Some a \<Rightarrow> let d = compare e a in if keep d then Some d else None) = None"
    by (simp add: Map_get_def)
qed

lemma compareColumn_self: "changes (compareColumn c c) = []"
  by (simp add: compareColumn_def)

lemma compareTable_self: "\<not> hasTableChanges (compareTable t t)"
  by (simp add: hasTableChanges_def compareTable_def Let_def missingKeys_self extraKeys_self
      modifiedEntries_self new_Map_distinct compareColumn_self)

lemma compareView_self: "\<not> definitionChanged (compareView v v)"
  by (simp add: compareView_def)

text \<open>
  Claim C3. Comparing any model with itself reports no change: \<open>hasChanges\<close> is false,
  every missing, extra and modified list is empty, and the summary is the sentence
  \<open>No schema drift detected. Database schema matches migrations.\<close>
\<close>

theorem compareSchemas_self:
  "compareSchemas m m =
     \<lparr>hasChanges = False, missingTables = [], extraTables = [], modifiedTables = [],
      missingIndexes = [], extraIndexes = [], missingViews = [], extraViews = [],
      modifiedViews = [], missingTriggers = [], extraTriggers = [],
      missingRLSPolicies = [], extraRLSPolicies = [],
      summary = ''No schema drift detected. Database schema matches migrations.''\<rparr>"
  by (simp add: compareSchemas_def Let_def missingKeys_self extraKeys_self
      modifiedEntries_self new_Map_distinct compareTable_self compareView_self
      generateSummary_def)

section \<open>The diff: the summary names tables only\<close>

lemma compareSchemas_hasChanges:
  "hasChanges (compareSchemas e a) =
     (missingTables (compareSchemas e a) \<noteq> []
      \<or> extraTables (compareSchemas e a) \<noteq> []
      \<or> modifiedTables (compareSchemas e a) \<noteq> []
      \<or> missingIndexes (compareSchemas e a) \<noteq> []
      \<or> extraIndexes (compareSchemas e a) \<noteq> []
      \<or> missingViews (compareSchemas e a) \<noteq> []
      \<or> extraViews (compareSchemas e a) \<noteq> []
      \<or> modifiedViews (compareSchemas e a) \<noteq> []
      \<or> missingTriggers (compareSchemas e a) \<noteq> []
      \<or> extraTriggers (compareSchemas e a) \<noteq> []
      \<or> missingRLSPolicies (compareSchemas e a) \<noteq> []
      \<or> extraRLSPolicies (compareSchemas e a) \<noteq> [])"
  by (simp add: compareSchemas_def Let_def)

lemma compareSchemas_summary:
  "summary (compareSchemas e a) =
     generateSummary (hasChanges (compareSchemas e a)) (missingTables (compareSchemas e a))
       (extraTables (compareSchemas e a)) (modifiedTables (compareSchemas e a))"
  by (simp add: compareSchemas_def Let_def)

lemma generateSummary_no_tables:
  "generateSummary True [] [] [] = ''Schema drift detected: .''"
  by (simp add: generateSummary_def)

text \<open>
  Claim C10. When the three table lists of the report are empty and some list of the
  index, view, trigger or policy families is not, \<open>hasChanges\<close> is true and the summary is
  the sentence \<open>Schema drift detected: .\<close>, which names no family.
\<close>

theorem summary_without_table_changes:
  assumes "missingTables (compareSchemas expected actual) = []"
    and "extraTables (compareSchemas expected actual) = []"
    and "modifiedTables (compareSchemas expected actual) = []"
    and "missingIndexes (compareSchemas expected actual) \<noteq> []
         \<or> extraIndexes (compareSchemas expected actual) \<noteq> []
         \<or> missingViews (compareSchemas expected actual) \<noteq> []
         \<or> extraViews (compareSchemas expected actual) \<noteq> []
         \<or> modifiedViews (compareSchemas expected actual) \<noteq> []
         \<or> missingTriggers (compareSchemas expected actual) \<noteq> []
         \<or> extraTriggers (compareSchemas expected actual) \<noteq> []
         \<or> missingRLSPolicies (compareSchemas expected actual) \<noteq> []
         \<or> extraRLSPolicies (compareSchemas expected actual) \<noteq> []"
  shows "hasChanges (compareSchemas expected actual)
       \<and> summary (compareSchemas expected actual) = ''Schema drift detected: .''"
proof -
  from assms(4) have h: "hasChanges (compareSchemas expected actual)"
    by (subst compareSchemas_hasChanges) blast
  have "summary (compareSchemas expected actual) = generateSummary True [] [] []"
    by (subst compareSchemas_summary) (simp only: assms(1-3) h)
  with h show ?thesis by (simp only: generateSummary_no_tables simp_thms)
qed

lemma compare_index_only:
  "compareSchemas
     (emptySchema\<lparr>indexes :=
        [\<lparr>idx_name = ''idx'', idx_tableName = ''a'', idx_schemaName = ''public'',
          idx_columns = [], idx_isUnique = False, idx_isPrimary = False, idx_method = ''btree'',
          idx_isConcurrent = False\<rparr>]\<rparr>)
     emptySchema =
   \<lparr>hasChanges = True, missingTables = [], extraTables = [], modifiedTables = [],
      missingIndexes = [''public.a.idx''], extraIndexes = [], missingViews = [], extraViews = [],
      modifiedViews = [], missingTriggers = [], extraTriggers = [],
      missingRLSPolicies = [], extraRLSPolicies = [],
      summary = ''Schema drift detected: .''\<rparr>"
  by (simp add: compareSchemas_def Let_def emptySchema_def new_Map_def missingKeys_def
      extraKeys_def modifiedEntries_def Map_keys_def Map_has_def Map_get_def generateSummary_def)

theorem summary_without_table_changes_witness:
  "hasChanges (compareSchemas
     (emptySchema\<lparr>indexes :=
        [\<lparr>idx_name = ''idx'', idx_tableName = ''a'', idx_schemaName = ''public'',
          idx_columns = [], idx_isUnique = False, idx_isPrimary = False, idx_method = ''btree'',
          idx_isConcurrent = False\<rparr>]\<rparr>)
     emptySchema)
   \<and> summary (compareSchemas
     (emptySchema\<lparr>indexes :=
        [\<lparr>idx_name = ''idx'', idx_tableName = ''a'', idx_schemaName = ''public'',
          idx_columns = [], idx_isUnique = False, idx_isPrimary = False, idx_method = ''btree'',
          idx_isConcurrent = False\<rparr>]\<rparr>)
     emptySchema) = ''Schema drift detected: .''"
  by (rule summary_without_table_changes) (simp_all add: compare_index_only)

section \<open>The loader: file-system failures\<close>

lemma parseMigrationFiles_readdir_fails:
  assumes "fs_readdir fs = Inl e"
  shows "parseMigrationFiles fs = (if code e = ''ENOENT'' then Inr [] else Inl e)"
  using assms by (simp add: parseMigrationFiles_def)

lemma parseMigrationFiles_readFile_fails:
  assumes "fs_readdir fs = Inr names"
    and "readFiles fs (filter (\<lambda>file. endsWith file ''.sql'') names) = Inl e"
  shows "parseMigrationFiles fs = (if code e = ''ENOENT'' then Inr [] else Inl e)"
  using assms by (simp add: parseMigrationFiles_def)

text \<open>
  Claim C8. A missing directory gives the empty list, and a file that cannot be read for
  lack of permission rejects the call; but the code departs from the claim when a file
  listed by the directory is missing at the time it is read (its \<open>readFile\<close> fails with
  \<open>ENOENT\<close>): the \<open>catch\<close> meant for the missing directory takes this failure too, and
  the call returns the empty list, dropping the file that was read, where the claim has
  the failure passed on to the caller.
\<close>

theorem parseMigrationFiles_swallows_missing_file:
  "parseMigrationFiles \<lparr>fs_readdir = Inl (FsError ''ENOENT''), fs_readFile = (\<lambda>n. Inr [])\<rparr>
     = Inr []
   \<and> parseMigrationFiles
       \<lparr>fs_readdir = Inr [''20240101000000_a.sql'', ''20240102000000_b.sql''],
        fs_readFile = (\<lambda>n. if n = ''20240102000000_b.sql'' then Inl (FsError ''EACCES'')
                           else Inr (formatMigrationContent ''CREATE TABLE t (id int);''
                                       ''DROP TABLE t;''))\<rparr>
     = Inl (FsError ''EACCES'')
   \<and> parseMigrationFiles
       \<lparr>fs_readdir = Inr [''20240101000000_a.sql'', ''20240102000000_b.sql''],
        fs_readFile = (\<lambda>n. if n = ''20240102000000_b.sql'' then Inl (FsError ''ENOENT'')
                           else Inr (formatMigrationContent ''CREATE TABLE t (id int);''
                                       ''DROP TABLE t;''))\<rparr>
     = Inr []"
proof -
  have sql: "endsWith ''20240101000000_a.sql'' ''.sql''" "endsWith ''20240102000000_b.sql'' ''.sql''"
    by (simp_all add: endsWith_def)
  show ?thesis
    by (simp add: parseMigrationFiles_def sql)
qed

section \<open>The loader: which files are loaded\<close>





lemma insertSorted_mset: "mset (insertSorted cmp x xs) = add_mset x (mset xs)"
  by (induction xs) simp_all

lemma Array_sort_mset: "mset (Array_sort cmp xs) = mset xs"
  unfolding Array_sort_def by (induction xs) (simp_all add: insertSorted_mset)







section \<open>The history: the argument array is sorted in place\<close>

lemma insertSorted_set: "set (insertSorted cmp x xs) = insert x (set xs)"
  by (induction xs) auto

lemma insertSorted_desc:
  assumes "sorted_wrt (\<lambda>a b. t b \<le> t a) xs"
  shows "sorted_wrt (\<lambda>a b. t b \<le> t a) (insertSorted (\<lambda>a b. t b - t a) x xs)"
  using assms
proof (induction xs)
  case Nil
  then show ?case by simp
next
  case (Cons y ys)
  show ?case
  proof (cases "t y - t x \<le> (0::int)")
    case True
    with Cons.prems show ?thesis by auto
  next
    case False
    with Cons show ?thesis by (auto simp: insertSorted_set)
  qed
qed

lemma Array_sort_desc:
  "sorted_wrt (\<lambda>a b. t b \<le> t a) (Array_sort (\<lambda>a b. t b - t a) xs)"
  unfolding Array_sort_def by (induction xs) (simp_all add: insertSorted_desc)

text \<open>
  Claim C9. Whenever the migration files are loaded and the applied list passed to
  \<open>getMigrationHistory\<close> is not empty, the call returns and the caller's array then holds
  the same records reordered by descending \<open>appliedAt\<close> (the stable sort of the list
  passed); the history's \<open>appliedMigrations\<close> is that array and \<open>lastAppliedVersion\<close> is the
  version of its first record.
\<close>

theorem getMigrationHistory_sorts_argument:
  assumes "parseMigrationFiles fs = Inr files"
    and "appliedMigrations \<noteq> []"
  shows "\<exists>appliedMigrations' history.
           getMigrationHistory fs appliedMigrations = Inr (appliedMigrations', history)
         \<and> appliedMigrations' =
             Array_sort (\<lambda>a b. am_appliedAt b - am_appliedAt a) appliedMigrations
         \<and> mset appliedMigrations' = mset appliedMigrations
         \<and> sorted_wrt (\<lambda>a b. am_appliedAt b \<le> am_appliedAt a) appliedMigrations'
         \<and> mh_appliedMigrations history = appliedMigrations'
         \<and> mh_lastAppliedVersion history = Some (am_version (hd appliedMigrations'))"
proof -
  let ?sorted = "Array_sort (\<lambda>a b. am_appliedAt b - am_appliedAt a) appliedMigrations"
  from assms obtain history where
    0: "getMigrationHistory fs appliedMigrations = Inr (?sorted, history)"
    and 4: "mh_appliedMigrations history = ?sorted"
    and last: "mh_lastAppliedVersion history =
      (case ?sorted of [] \<Rightarrow> None | first # rest \<Rightarrow> Some (am_version first))"
    by (simp add: getMigrationHistory_def Let_def)
  have 2: "mset ?sorted = mset appliedMigrations"
    by (rule Array_sort_mset)
  have 3: "sorted_wrt (\<lambda>a b. am_appliedAt b \<le> am_appliedAt a) ?sorted"
    by (rule Array_sort_desc)
  from 2 assms(2) have "?sorted \<noteq> []"
    by (metis mset_zero_iff)
  with last have 5: "mh_lastAppliedVersion history = Some (am_version (hd ?sorted))"
    by (cases ?sorted) simp_all
  from 0 2 3 4 5 show ?thesis by blast
qed

theorem getMigrationHistory_sorts_argument_witness:
  "\<exists>history.
     getMigrationHistory \<lparr>fs_readdir = Inr [], fs_readFile = (\<lambda>n. Inr [])\<rparr>
       [\<lparr>am_version = ''20240101000000'', am_appliedAt = 5\<rparr>,
        \<lparr>am_version = ''20240102000000'', am_appliedAt = 9\<rparr>]
     = Inr ([\<lparr>am_version = ''20240102000000'', am_appliedAt = 9\<rparr>,
             \<lparr>am_version = ''20240101000000'', am_appliedAt = 5\<rparr>], history)
     \<and> mh_lastAppliedVersion history = Some ''20240102000000''"
proof -
  let ?fs = "\<lparr>fs_readdir = Inr [], fs_readFile = (\<lambda>n. Inr [])\<rparr>"
  let ?applied = "[\<lparr>am_version = ''20240101000000'', am_appliedAt = 5\<rparr>,
                   \<lparr>am_version = ''20240102000000'', am_appliedAt = 9\<rparr>]"
  have files: "parseMigrationFiles ?fs = Inr []"
    by (simp add: parseMigrationFiles_def Array_sort_def)
  have ne: "?applied \<noteq> []" by simp
  have sorted: "Array_sort (\<lambda>a b. am_appliedAt b - am_appliedAt a) ?applied =
      [\<lparr>am_version = ''20240102000000'', am_appliedAt = 9\<rparr>,
       \<lparr>am_version = ''20240101000000'', am_appliedAt = 5\<rparr>]"
    by (simp add: Array_sort_def)
  from getMigrationHistory_sorts_argument[OF files ne] show ?thesis
    unfolding sorted by auto
qed

section \<open>The analysis: duplicate versions\<close>
















section \<open>Formatting and parsing a migration file\<close>

lemma split_nonempty: "split c s \<noteq> []"
  by (induction s) (auto split: list.splits)

lemma split_append_sep: "split c (a @ c # b) = split c a @ split c b"
proof (induction a)
  case Nil
  then show ?case by simp
next
  case (Cons x a)
  obtain y ys where "split c a = y # ys"
    using split_nonempty[of c a] by (cases "split c a") auto
  with Cons show ?case by simp
qed

lemma split_no_sep: "c \<notin> set s \<Longrightarrow> split c s = [s]"
  by (induction s) auto

lemma concat_split: "concat (map (\<lambda>l. l @ [c]) (split c s)) = s @ [c]"
proof (induction s)
  case Nil
  then show ?case by simp
next
  case (Cons x s)
  obtain y ys where "split c s = y # ys"
    using split_nonempty[of c s] by (cases "split c s") auto
  with Cons show ?case by auto
qed

lemma sectionStep_plain:
  "\<not> markerLine l \<Longrightarrow>
     sectionStep (u, d, sec) l =
       (if sec = SectionUp then (u @ l @ [CHR 0x0A], d, sec)
        else if sec = SectionDown then (u, d @ l @ [CHR 0x0A], sec)
        else (u, d, sec))"
  by (simp add: sectionStep_def markerLine_def Let_def)

lemma foldl_sectionStep_up:
  "list_all (\<lambda>l. \<not> markerLine l) ls \<Longrightarrow>
     foldl sectionStep (u, d, SectionUp) ls =
       (u @ concat (map (\<lambda>l. l @ [CHR 0x0A]) ls), d, SectionUp)"
  by (induction ls arbitrary: u) (simp_all add: sectionStep_plain)

lemma foldl_sectionStep_down:
  "list_all (\<lambda>l. \<not> markerLine l) ls \<Longrightarrow>
     foldl sectionStep (u, d, SectionDown) ls =
       (u, d @ concat (map (\<lambda>l. l @ [CHR 0x0A]) ls), SectionDown)"
  by (induction ls arbitrary: d) (simp_all add: sectionStep_plain)

lemma trim_up_marker: "trim ''-- migrate:up'' = ''-- migrate:up''"
  by code_simp

lemma trim_down_marker: "trim ''-- migrate:down'' = ''-- migrate:down''"
  by code_simp

lemma sectionStep_up_marker: "sectionStep (u, d, sec) ''-- migrate:up'' = (u, d, SectionUp)"
  by (simp add: sectionStep_def Let_def trim_up_marker startsWith_def)

lemma sectionStep_down_marker: "sectionStep (u, d, sec) ''-- migrate:down'' = (u, d, SectionDown)"
  by (simp add: sectionStep_def Let_def trim_down_marker startsWith_def)

lemma blank_not_marker: "\<not> markerLine []"
  by (simp add: markerLine_def trim_def startsWith_def)

lemma trim_append_spaces:
  assumes "list_all isSpace ws"
  shows "trim (s @ ws) = trim s"
proof (cases "list_all isSpace s")
  case True
  with assms have a: "dropWhile isSpace (s @ ws) = []" and b: "dropWhile isSpace s = []"
    by (auto simp: list_all_iff)
  show ?thesis unfolding trim_def a b by simp
next
  case False
  then obtain x where "x \<in> set s" "\<not> isSpace x" by (auto simp: list_all_iff)
  then have a: "dropWhile isSpace (s @ ws) = dropWhile isSpace s @ ws"
    by simp
  have b: "dropWhile isSpace (rev ws @ r) = dropWhile isSpace r" for r
    using assms by (intro dropWhile_append2) (simp add: list_all_iff)
  show ?thesis unfolding trim_def a rev_append b ..
qed

lemma formatted_text:
  "formatMigrationContent up down =
     ''-- migrate:up'' @ CHR 0x0A # (up @ CHR 0x0A # ([] @ CHR 0x0A #
       (''-- migrate:down'' @ CHR 0x0A # (down @ CHR 0x0A # []))))"
  by (simp add: formatMigrationContent_def)

lemma split_markers:
  "split (CHR 0x0A) ''-- migrate:up'' = [''-- migrate:up'']"
  "split (CHR 0x0A) ''-- migrate:down'' = [''-- migrate:down'']"
  by (rule split_no_sep, simp)+

lemma formatted_lines:
  "split (CHR 0x0A) (formatMigrationContent up down) =
     [''-- migrate:up''] @ split (CHR 0x0A) up @ [[], ''-- migrate:down'']
     @ split (CHR 0x0A) down @ [[]]"
  unfolding formatted_text split_append_sep split_markers by simp

text \<open>Occurrences in a text cut at a character that the pattern does not contain.\<close>

lemma startsWith_append_sep:
  assumes "c \<notin> set p"
  shows "startsWith (a @ c # b) p \<longleftrightarrow> startsWith a p"
proof (cases "length p \<le> length a")
  case True
  then show ?thesis by (simp add: startsWith_def)
next
  case False
  then have in_take: "c \<in> set (take (length p) (a @ c # b))"
    by (cases "length p - length a") auto
  have 1: "take (length p) (a @ c # b) \<noteq> p"
  proof
    assume e: "take (length p) (a @ c # b) = p"
    from in_take have "c \<in> set p" unfolding e .
    with assms show False by simp
  qed
  have 2: "take (length p) a \<noteq> p"
  proof
    assume "take (length p) a = p"
    then have "length (take (length p) a) = length p" by simp
    with False show False by simp
  qed
  from 1 2 show ?thesis by (simp only: startsWith_def)
qed

lemma occurrences_append_sep:
  assumes "c \<notin> set p" and "p \<noteq> []"
  shows "occurrences p (a @ c # b) = occurrences p a + occurrences p b"
proof (induction a)
  case Nil
  from assms have "\<not> startsWith (c # b) p"
    by (cases p) (auto simp: startsWith_def)
  then show ?case by simp
next
  case (Cons x a)
  have "startsWith ((x # a) @ c # b) p \<longleftrightarrow> startsWith (x # a) p"
    using assms(1) by (rule startsWith_append_sep)
  with Cons show ?case by simp
qed

lemma occurrences_markers:
  "occurrences ''-- migrate:up'' ''-- migrate:up'' = 1"
  "occurrences ''-- migrate:up'' ''-- migrate:down'' = 0"
  "occurrences ''-- migrate:down'' ''-- migrate:up'' = 0"
  "occurrences ''-- migrate:down'' ''-- migrate:down'' = 1"
  by code_simp+

lemma occurrences_formatted:
  assumes "CHR 0x0A \<notin> set p" and "p \<noteq> []"
  shows "occurrences p (formatMigrationContent up down) =
     occurrences p ''-- migrate:up'' + occurrences p up
     + occurrences p ''-- migrate:down'' + occurrences p down"
  unfolding formatted_text occurrences_append_sep[OF assms] by simp

lemma parse_formatted:
  assumes "list_all (\<lambda>l. \<not> markerLine l) (split (CHR 0x0A) up)"
    and "list_all (\<lambda>l. \<not> markerLine l) (split (CHR 0x0A) down)"
  shows "foldl sectionStep ([], [], SectionNone) (split (CHR 0x0A) (formatMigrationContent up down))
         = (up @ [CHR 0x0A, CHR 0x0A], down @ [CHR 0x0A, CHR 0x0A], SectionDown)"
  unfolding formatted_lines foldl_append
  by (simp add: sectionStep_up_marker sectionStep_down_marker foldl_sectionStep_up[OF assms(1)]
      foldl_sectionStep_down[OF assms(2)] sectionStep_plain[OF blank_not_marker] concat_split)

text \<open>
  A line that starts with a no-break space before the marker is a marker line, as
  \<open>trim()\<close> strips that space.
\<close>

lemma markerLine_after_nbsp:
  "markerLine (CHR 0xA0 # ''-- migrate:down'')"
  "fst (parseMigrationSections (formatMigrationContent
      (''CREATE TABLE t (id int);'' @ [CHR 0x0A, CHR 0xA0] @ ''-- migrate:down'') ''DROP TABLE t;''))
     = ''CREATE TABLE t (id int);''"
  by code_simp+

lemma cex_parse:
  "parseMigrationSections (formatMigrationContent
      (''CREATE TABLE t (id int);'' @ [CHR 0x0A] @ ''-- migrate:down drops it'') ''DROP TABLE t;'')
     = (''CREATE TABLE t (id int);'', ''DROP TABLE t;'')"
  by code_simp

lemma cex_trim:
  "trim (''CREATE TABLE t (id int);'' @ [CHR 0x0A] @ ''-- migrate:down drops it'')
     = ''CREATE TABLE t (id int);'' @ [CHR 0x0A] @ ''-- migrate:down drops it''"
  by code_simp

lemma cex_count:
  "occurrences ''-- migrate:down'' (formatMigrationContent
      (''CREATE TABLE t (id int);'' @ [CHR 0x0A] @ ''-- migrate:down drops it'') ''DROP TABLE t;'')
     = 2"
  by code_simp

text \<open>
  Claim C4, as stated, fails: an up section with a comment line that starts with
  \<open>-- migrate:down\<close> is cut at that line when the formatted text is parsed, and the
  formatted text then holds the marker twice.
\<close>

theorem round_trip_counterexample:
  "fst (parseMigrationSections (formatMigrationContent
      (''CREATE TABLE t (id int);'' @ [CHR 0x0A] @ ''-- migrate:down drops it'') ''DROP TABLE t;''))
     = ''CREATE TABLE t (id int);''
   \<and> trim (''CREATE TABLE t (id int);'' @ [CHR 0x0A] @ ''-- migrate:down drops it'')
     = ''CREATE TABLE t (id int);'' @ [CHR 0x0A] @ ''-- migrate:down drops it''
   \<and> occurrences ''-- migrate:down'' (formatMigrationContent
      (''CREATE TABLE t (id int);'' @ [CHR 0x0A] @ ''-- migrate:down drops it'') ''DROP TABLE t;'')
     = 2"
  unfolding cex_parse cex_trim cex_count by simp

text \<open>
  Claim C4, amended. For every pair \<open>(up, down)\<close> in which no line is a marker line (no
  line, once trimmed, starts with \<open>-- migrate:up\<close> or \<open>-- migrate:down\<close>), parsing
  \<open>formatMigrationContent up down\<close> returns \<open>up\<close> and \<open>down\<close> trimmed; and the formatted
  text holds each marker once more than \<open>up\<close> and \<open>down\<close> together hold it, so exactly
  once when neither holds it.
\<close>

theorem format_parse_round_trip:
  assumes "list_all (\<lambda>l. \<not> markerLine l) (split (CHR 0x0A) up)"
    and "list_all (\<lambda>l. \<not> markerLine l) (split (CHR 0x0A) down)"
  shows "parseMigrationSections (formatMigrationContent up down) = (trim up, trim down)
       \<and> occurrences ''-- migrate:up'' (formatMigrationContent up down)
           = 1 + occurrences ''-- migrate:up'' up + occurrences ''-- migrate:up'' down
       \<and> occurrences ''-- migrate:down'' (formatMigrationContent up down)
           = 1 + occurrences ''-- migrate:down'' up + occurrences ''-- migrate:down'' down"
proof -
  have nl: "list_all isSpace [CHR 0x0A, CHR 0x0A]"
    by (simp add: isSpace_def)
  have "parseMigrationSections (formatMigrationContent up down)
        = (trim (up @ [CHR 0x0A, CHR 0x0A]), trim (down @ [CHR 0x0A, CHR 0x0A]))"
    unfolding parseMigrationSections_def parse_formatted[OF assms] by simp
  then have 1: "parseMigrationSections (formatMigrationContent up down) = (trim up, trim down)"
    unfolding trim_append_spaces[OF nl] .
  have 2: "occurrences ''-- migrate:up'' (formatMigrationContent up down)
           = 1 + occurrences ''-- migrate:up'' up + occurrences ''-- migrate:up'' down"
  proof -
    have p: "CHR 0x0A \<notin> set ''-- migrate:up''" "''-- migrate:up'' \<noteq> []" by simp_all
    show ?thesis unfolding occurrences_formatted[OF p] occurrences_markers by simp
  qed
  have 3: "occurrences ''-- migrate:down'' (formatMigrationContent up down)
           = 1 + occurrences ''-- migrate:down'' up + occurrences ''-- migrate:down'' down"
  proof -
    have p: "CHR 0x0A \<notin> set ''-- migrate:down''" "''-- migrate:down'' \<noteq> []" by simp_all
    show ?thesis unfolding occurrences_formatted[OF p] occurrences_markers by simp
  qed
  from 1 2 3 show ?thesis by blast
qed

lemma wit_lines:
  "list_all (\<lambda>l. \<not> markerLine l)
     (split (CHR 0x0A) ('' CREATE TABLE t (id int);'' @ [CHR 0x0A] @ ''-- the table''))"
  "list_all (\<lambda>l. \<not> markerLine l) (split (CHR 0x0A) ''DROP TABLE t; '')"
  by code_simp+

lemma wit_values:
  "trim ('' CREATE TABLE t (id int);'' @ [CHR 0x0A] @ ''-- the table'')
     = ''CREATE TABLE t (id int);'' @ [CHR 0x0A] @ ''-- the table''"
  "trim ''DROP TABLE t; '' = ''DROP TABLE t;''"
  "occurrences ''-- migrate:up'' ('' CREATE TABLE t (id int);'' @ [CHR 0x0A] @ ''-- the table'') = 0"
  "occurrences ''-- migrate:down'' ('' CREATE TABLE t (id int);'' @ [CHR 0x0A] @ ''-- the table'') = 0"
  "occurrences ''-- migrate:up'' ''DROP TABLE t; '' = 0"
  "occurrences ''-- migrate:down'' ''DROP TABLE t; '' = 0"
  by code_simp+

theorem format_parse_round_trip_witness:
  "parseMigrationSections (formatMigrationContent
      ('' CREATE TABLE t (id int);'' @ [CHR 0x0A] @ ''-- the table'') ''DROP TABLE t; '')
     = (''CREATE TABLE t (id int);'' @ [CHR 0x0A] @ ''-- the table'', ''DROP TABLE t;'')
   \<and> occurrences ''-- migrate:up'' (formatMigrationContent
      ('' CREATE TABLE t (id int);'' @ [CHR 0x0A] @ ''-- the table'') ''DROP TABLE t; '') = 1
   \<and> occurrences ''-- migrate:down'' (formatMigrationContent
      ('' CREATE TABLE t (id int);'' @ [CHR 0x0A] @ ''-- the table'') ''DROP TABLE t; '') = 1"
  using format_parse_round_trip[OF wit_lines] unfolding wit_values by simp

end
